theory Spec2Isabelle
  imports Main
begin

section \<open>The Trelica audit-log puller (\<^verbatim>\<open>src/audit-logs/index.js\<close>)\<close>

text \<open>
  The class \<^verbatim>\<open>TrelicaLogPuller\<close> authenticates against a token endpoint, loads a
  bookmark (the cursor) from a file, and then fetches pages of audit logs in a loop,
  appending each page to an output file and saving the page's \<^verbatim>\<open>next\<close> URL as the new
  bookmark. The embedding below follows the source method by method. The instance fields
  are a record, the outside world (the files, the calls made to it, the console) is a
  second record that every method threads through, and every \<^verbatim>\<open>throw\<close> and every
  rejected promise (of \<^verbatim>\<open>fetch\<close>, \<^verbatim>\<open>response.json\<close>, \<^verbatim>\<open>fs.readFile\<close>,
  \<^verbatim>\<open>fs.writeFile\<close>) is an \<open>Inl\<close> result next to the state reached when it happened.
\<close>

subsection \<open>JSON values and the JavaScript operations the source applies to them\<close>

text \<open>
  What \<^verbatim>\<open>JSON.parse\<close> and \<^verbatim>\<open>response.json()\<close> return. Numbers are integers here: the
  source only counts, compares with zero and tests numbers for truthiness. An object is
  the list of its members, under the distinct names that parsing leaves; a string is the
  list of its code units. A JavaScript value that may be \<^verbatim>\<open>undefined\<close> is a
  \<open>json option\<close>, with \<open>None\<close> for \<^verbatim>\<open>undefined\<close>.
\<close>

datatype json =
    JNull
  | JBool bool
  | JNum int
  | JStr string
  | JArr "json list"
  | JObj "(string \<times> json) list"

datatype error =
    AuthenticationFailed int "json option"
      \<comment> \<open>line 52: the message holds \<^verbatim>\<open>response.status\<close> and \<^verbatim>\<open>error.error\<close>\<close>
  | NotAuthenticated
      \<comment> \<open>line 90\<close>
  | FetchLogsFailed int "json option"
      \<comment> \<open>line 104: the message holds \<^verbatim>\<open>response.status\<close> and \<^verbatim>\<open>error.title || error.message\<close>\<close>
  | FetchRejected
      \<comment> \<open>\<^verbatim>\<open>fetch\<close> rejected: no response (network failure, target not a URL)\<close>
  | SyntaxError
      \<comment> \<open>\<^verbatim>\<open>response.json()\<close> or \<^verbatim>\<open>JSON.parse\<close> on text that is not JSON\<close>
  | TypeError
      \<comment> \<open>a property read on \<^verbatim>\<open>null\<close>, or a call of something that is not a function\<close>
  | RangeError
      \<comment> \<open>\<^verbatim>\<open>toISOString\<close> on an invalid date\<close>
  | WriteRejected
      \<comment> \<open>\<^verbatim>\<open>fs.writeFile\<close> rejected: no such directory, no permission, disk full\<close>
  | OutsideModel
      \<comment> \<open>a numeric coercion of a non-number that the embedding does not follow\<close>

text \<open>Truthiness, as \<^verbatim>\<open>if (v)\<close>, \<^verbatim>\<open>!v\<close> and \<^verbatim>\<open>v || d\<close> test it.\<close>

fun truthy :: "json option \<Rightarrow> bool" where
  "truthy None = False"
| "truthy (Some JNull) = False"
| "truthy (Some (JBool b)) = b"
| "truthy (Some (JNum n)) = (n \<noteq> 0)"
| "truthy (Some (JStr s)) = (s \<noteq> [])"
| "truthy (Some (JArr xs)) = True"
| "truthy (Some (JObj kvs)) = True"

text \<open>\<^verbatim>\<open>a || b\<close> where \<open>b\<close> is a defined value.\<close>

definition js_or :: "json option \<Rightarrow> json \<Rightarrow> json" where
  "js_or a b = (case a of None \<Rightarrow> b | Some v \<Rightarrow> if truthy a then v else b)"

text \<open>
  \<^verbatim>\<open>v.name\<close> on a parsed JSON value, for the member names the source reads
  (\<^verbatim>\<open>results\<close>, \<^verbatim>\<open>next\<close>, \<^verbatim>\<open>nextUrl\<close>, \<^verbatim>\<open>error\<close>, \<^verbatim>\<open>title\<close>, \<^verbatim>\<open>message\<close>,
  \<^verbatim>\<open>access_token\<close>, none of which a prototype provides): reading from \<^verbatim>\<open>null\<close>
  throws, an object gives its member or \<^verbatim>\<open>undefined\<close>, everything else gives
  \<^verbatim>\<open>undefined\<close>.
\<close>

fun get_prop :: "json \<Rightarrow> string \<Rightarrow> error + json option" where
  "get_prop JNull name = Inl TypeError"
| "get_prop (JObj kvs) name = Inr (map_of kvs name)"
| "get_prop v name = Inr None"

text \<open>\<^verbatim>\<open>v.length\<close> for a value that is not \<^verbatim>\<open>null\<close>.\<close>

fun js_length :: "json \<Rightarrow> json option" where
  "js_length (JArr xs) = Some (JNum (int (length xs)))"
| "js_length (JStr s) = Some (JNum (int (length s)))"
| "js_length (JObj kvs) = map_of kvs ''length''"
| "js_length v = None"

subsection \<open>Decimal and string conversion\<close>

definition digit :: "nat \<Rightarrow> char" where
  "digit n = ''0123456789ABCDEF'' ! (n mod 16)"

fun show_nat :: "nat \<Rightarrow> string" where
  "show_nat n = (if n < 10 then [digit n] else show_nat (n div 10) @ [digit (n mod 10)])"

declare show_nat.simps [simp del]

definition show_int :: "int \<Rightarrow> string" where
  "show_int i = (if i < 0 then CHR ''-'' # show_nat (nat (- i)) else show_nat (nat i))"

text \<open>A number in decimal, padded with zeros on the left to at least \<open>k\<close> digits.\<close>

definition pad :: "nat \<Rightarrow> int \<Rightarrow> string" where
  "pad k i = (let ds = show_nat (nat i) in replicate (k - length ds) CHR ''0'' @ ds)"

fun join :: "string \<Rightarrow> string list \<Rightarrow> string" where
  "join sep [] = []"
| "join sep [x] = x"
| "join sep (x # y # ys) = x @ sep @ join sep (y # ys)"

text \<open>
  \<^verbatim>\<open>String(v)\<close>: an array is its elements joined by commas, \<^verbatim>\<open>null\<close> elements being
  empty, and an object is the fixed text of \<^verbatim>\<open>Object.prototype.toString\<close>.
\<close>

fun js_to_string :: "json \<Rightarrow> string" where
  "js_to_string JNull = ''null''"
| "js_to_string (JBool b) = (if b then ''true'' else ''false'')"
| "js_to_string (JNum n) = show_int n"
| "js_to_string (JStr s) = s"
| "js_to_string (JArr xs) =
     join '','' (map (\<lambda>x. if x = JNull then [] else js_to_string x) xs)"
| "js_to_string (JObj kvs) = ''[object Object]''"

text \<open>
  \<^verbatim>\<open>existingLogs.concat(logs)\<close> (line 125). \<^verbatim>\<open>Array.prototype.concat\<close> spreads an
  array argument and appends any other value as one element;
  \<^verbatim>\<open>String.prototype.concat\<close> appends the argument's string; \<^verbatim>\<open>null\<close> has no
  properties, and numbers, booleans and parsed objects have no \<^verbatim>\<open>concat\<close> to call.
\<close>

fun js_concat :: "json \<Rightarrow> json \<Rightarrow> error + json" where
  "js_concat (JArr xs) (JArr ys) = Inr (JArr (xs @ ys))"
| "js_concat (JArr xs) v = Inr (JArr (xs @ [v]))"
| "js_concat (JStr s) v = Inr (JStr (s @ js_to_string v))"
| "js_concat existing v = Inl TypeError"

text \<open>
  \<^verbatim>\<open>JSON.stringify\<close> of an object literal followed by \<^verbatim>\<open>JSON.parse\<close>: a member whose
  value is \<^verbatim>\<open>undefined\<close> is left out.
\<close>

definition stringify_obj :: "(string \<times> json option) list \<Rightarrow> json" where
  "stringify_obj kvs = JObj (List.map_filter (\<lambda>(k, v). map_option (Pair k) v) kvs)"

subsection \<open>Dates\<close>

text \<open>
  A \<^verbatim>\<open>Date\<close> is its time value, the milliseconds since the epoch, or invalid (\<open>None\<close>).
  The functions are the abstract operations of ECMAScript's Date objects on the proleptic
  Gregorian calendar, in exact integer arithmetic. The offset of local time from UTC
  belongs to the environment and is a parameter \<open>tza\<close>: \<open>tza t True\<close> for a UTC time
  \<open>t\<close>, \<open>tza t False\<close> for a local one.
\<close>

definition msPerDay :: int where
  "msPerDay = 86400000"

definition Day :: "int \<Rightarrow> int" where
  "Day t = t div msPerDay"

definition TimeWithinDay :: "int \<Rightarrow> int" where
  "TimeWithinDay t = t mod msPerDay"

text \<open>The civil date (year, month from 0, day of the month from 1) of a day number.\<close>

definition civil_from_days :: "int \<Rightarrow> int \<times> int \<times> int" where
  "civil_from_days z0 =
     (let z = z0 + 719468;
          era = z div 146097;
          doe = z mod 146097;
          yoe = (doe - doe div 1460 + doe div 36524 - doe div 146096) div 365;
          doy = doe - (365 * yoe + yoe div 4 - yoe div 100);
          mp = (5 * doy + 2) div 153;
          d = doy - (153 * mp + 2) div 5 + 1;
          m = (if mp < 10 then mp + 2 else mp - 10);
          y = yoe + era * 400 + (if m \<le> 1 then 1 else 0)
      in (y, m, d))"

text \<open>The day number of the first day of month \<open>m\<close> (from 0 to 11) of year \<open>y\<close>.\<close>

definition days_from_civil :: "int \<Rightarrow> int \<Rightarrow> int" where
  "days_from_civil y0 m =
     (let y = (if m \<le> 1 then y0 - 1 else y0);
          era = y div 400;
          yoe = y mod 400;
          doy = (153 * (if m > 1 then m - 2 else m + 10) + 2) div 5;
          doe = yoe * 365 + yoe div 4 - yoe div 100 + doy
      in era * 146097 + doe - 719468)"

definition YearFromTime :: "int \<Rightarrow> int" where
  "YearFromTime t = fst (civil_from_days (Day t))"

definition MonthFromTime :: "int \<Rightarrow> int" where
  "MonthFromTime t = fst (snd (civil_from_days (Day t)))"

definition DateFromTime :: "int \<Rightarrow> int" where
  "DateFromTime t = snd (snd (civil_from_days (Day t)))"

definition MakeDay :: "int \<Rightarrow> int \<Rightarrow> int \<Rightarrow> int" where
  "MakeDay year month date =
     days_from_civil (year + month div 12) (month mod 12) + date - 1"

definition MakeDate :: "int \<Rightarrow> int \<Rightarrow> int" where
  "MakeDate day time = day * msPerDay + time"

definition LocalTime :: "(int \<Rightarrow> bool \<Rightarrow> int) \<Rightarrow> int \<Rightarrow> int" where
  "LocalTime tza t = t + tza t True"

definition UTC :: "(int \<Rightarrow> bool \<Rightarrow> int) \<Rightarrow> int \<Rightarrow> int" where
  "UTC tza t = t - tza t False"

definition TimeClip :: "int \<Rightarrow> int option" where
  "TimeClip t = (if \<bar>t\<bar> > 8640000000000000 then None else Some t)"

definition getMonth :: "(int \<Rightarrow> bool \<Rightarrow> int) \<Rightarrow> int \<Rightarrow> int" where
  "getMonth tza t = MonthFromTime (LocalTime tza t)"

definition setMonth :: "(int \<Rightarrow> bool \<Rightarrow> int) \<Rightarrow> int \<Rightarrow> int \<Rightarrow> int option" where
  "setMonth tza t m =
     (let lt = LocalTime tza t;
          newDate = MakeDate (MakeDay (YearFromTime lt) m (DateFromTime lt)) (TimeWithinDay lt)
      in TimeClip (UTC tza newDate))"

text \<open>
  \<^verbatim>\<open>toISOString\<close>: \<^verbatim>\<open>YYYY-MM-DDTHH:mm:ss.sssZ\<close> in UTC, with a sign and six digits for
  a year outside 0 to 9999; a \<^verbatim>\<open>RangeError\<close> on an invalid date.
\<close>

definition iso_year :: "int \<Rightarrow> string" where
  "iso_year y =
     (if 0 \<le> y \<and> y \<le> 9999 then pad 4 y
      else if y < 0 then CHR ''-'' # pad 6 (- y)
      else CHR ''+'' # pad 6 y)"

definition iso_string :: "int \<Rightarrow> string" where
  "iso_string t =
     (let tod = TimeWithinDay t in
      iso_year (YearFromTime t) @ ''-'' @ pad 2 (MonthFromTime t + 1) @ ''-''
        @ pad 2 (DateFromTime t) @ ''T'' @ pad 2 (tod div 3600000) @ '':''
        @ pad 2 (tod div 60000 mod 60) @ '':'' @ pad 2 (tod div 1000 mod 60) @ ''.''
        @ pad 3 (tod mod 1000) @ ''Z'')"

definition toISOString :: "int option \<Rightarrow> error + string" where
  "toISOString d = (case d of None \<Rightarrow> Inl RangeError | Some t \<Rightarrow> Inr (iso_string t))"

text \<open>
  \<^verbatim>\<open>encodeURIComponent\<close>: every character but the unreserved ones becomes a percent
  sign and two upper-case hexadecimal digits (a \<open>char\<close> is one byte of the UTF-8 text).
\<close>

definition unreserved :: "char \<Rightarrow> bool" where
  "unreserved c \<longleftrightarrow>
     c \<in> set ''ABCDEFGHIJKLMNOPQRSTUVWXYZabcdefghijklmnopqrstuvwxyz0123456789-_.!~*()''
     \<or> c = CHR 0x27"

definition encode_char :: "char \<Rightarrow> string" where
  "encode_char c =
     (if unreserved c then [c]
      else [CHR ''%'', digit (of_char c div 16), digit (of_char c mod 16)])"

definition encodeURIComponent :: "string \<Rightarrow> string" where
  "encodeURIComponent s = concat (map encode_char s)"

subsection \<open>The environment, the world and the instance\<close>

text \<open>
  The content of a file, as \<^verbatim>\<open>fs.readFile\<close> followed by \<^verbatim>\<open>JSON.parse\<close> sees it: no
  file (the read is rejected), text that is not JSON (the parse throws), or the JSON value
  the text denotes.
\<close>

datatype file_content = Absent | NotJson | Json json

text \<open>
  What becomes of a call of \<^verbatim>\<open>fs.writeFile\<close>: the text is stored; or the call is rejected
  and the file is as it was (no such directory, no permission); or the call is rejected
  after the file was truncated (the disk is full), which leaves text that is not JSON.
\<close>

datatype write_result = Stored | Refused | Torn

datatype http_verb = POST | GET

datatype authorization =
    Basic "string option" "string option"
      \<comment> \<open>the base64 of \<^verbatim>\<open>clientId:clientSecret\<close>\<close>
  | Bearer "json option"

record request =
  verb :: http_verb
  target :: "json option"
  auth :: authorization
  payload :: "string option"

text \<open>
  A response: its status and its body as \<^verbatim>\<open>response.json()\<close> reads it, \<open>None\<close> when
  the body is not JSON. \<^verbatim>\<open>response.ok\<close> is a status from 200 to 299.
\<close>

record response =
  status :: int
  body :: "json option"

definition ok :: "response \<Rightarrow> bool" where
  "ok r \<longleftrightarrow> 200 \<le> status r \<and> status r \<le> 299"

text \<open>
  What the program cannot decide: the server's answer to a request (\<open>None\<close> when
  \<^verbatim>\<open>fetch\<close> rejects), the clock, the time zone, and what becomes of a write to a file.
  All but the time zone may depend on when they are asked; the moment is the number of
  calls made to the world so far.
\<close>

record env =
  http :: "nat \<Rightarrow> request \<Rightarrow> response option"
  clock :: "nat \<Rightarrow> int"
  localTZA :: "int \<Rightarrow> bool \<Rightarrow> int"
  disk :: "nat \<Rightarrow> string \<Rightarrow> write_result"

text \<open>
  The calls made to the world. \<open>FileWrite\<close> is a write that stored its value,
  \<open>FileWriteFailed\<close> one that was rejected, with \<open>True\<close> when it left the file torn.
\<close>

datatype event =
    Fetch request
  | FileRead string
  | FileWrite string json
  | FileWriteFailed string bool
  | Delay nat

text \<open>The lines written by \<^verbatim>\<open>console.log\<close> and \<^verbatim>\<open>console.error\<close>, with the values they interpolate.\<close>

datatype log_line =
    LogStarting
  | LogAuthenticated
  | LogLoadedBookmark "json option"
  | LogNoValidBookmark int string
  | LogBookmarkSaved "json option"
  | LogFetching
  | LogFetched "json option"
  | LogAppended "json option" string
  | LogPulled int int
  | LogNoNextUrl
  | LogCaughtUp
  | LogSavedPosition "json option"
  | LogCompleted int
  | LogError error

record world =
  files :: "string \<Rightarrow> file_content"
  trace :: "event list"
  console :: "log_line list"

text \<open>The argument of the constructor; a member that is left out is \<open>None\<close>.\<close>

record config =
  cfg_host :: "string option"
  cfg_clientId :: "string option"
  cfg_clientSecret :: "string option"
  cfg_bookmarkFile :: "string option"
  cfg_outputFile :: "string option"
  cfg_initialLookbackMonths :: "int option"

text \<open>
  The fields of the instance. The last two hold any value: \<^verbatim>\<open>null\<close> at first, and
  later what the token response and the bookmark file or a page gave, which may be
  \<^verbatim>\<open>undefined\<close>.
\<close>

record puller =
  host :: string
  clientId :: "string option"
  clientSecret :: "string option"
  bookmarkFile :: string
  outputFile :: string
  initialLookbackMonths :: int
  accessToken :: "json option"
  bookmark :: "json option"

text \<open>\<^verbatim>\<open>s || d\<close> on an optional string and \<^verbatim>\<open>n || d\<close> on an optional number.\<close>

definition str_or :: "string option \<Rightarrow> string \<Rightarrow> string" where
  "str_or a d = (case a of None \<Rightarrow> d | Some s \<Rightarrow> if s = [] then d else s)"

definition num_or :: "int option \<Rightarrow> int \<Rightarrow> int" where
  "num_or a d = (case a of None \<Rightarrow> d | Some n \<Rightarrow> if n = 0 then d else n)"

text \<open>The constructor, lines 26 to 35.\<close>

definition TrelicaLogPuller :: "config \<Rightarrow> puller" where
  "TrelicaLogPuller c =
     \<lparr> host = str_or (cfg_host c) ''app.trelica.com'',
       clientId = cfg_clientId c,
       clientSecret = cfg_clientSecret c,
       bookmarkFile = str_or (cfg_bookmarkFile c) ''trelica_bookmark.json'',
       outputFile = str_or (cfg_outputFile c) ''trelica_logs.json'',
       initialLookbackMonths = num_or (cfg_initialLookbackMonths c) 3,
       accessToken = Some JNull,
       bookmark = Some JNull \<rparr>"

subsection \<open>Calls to the world\<close>

definition emit :: "event \<Rightarrow> world \<Rightarrow> world" where
  "emit e w = w\<lparr>trace := trace w @ [e]\<rparr>"

definition console_log :: "log_line \<Rightarrow> world \<Rightarrow> world" where
  "console_log l w = w\<lparr>console := console w @ [l]\<rparr>"

definition now :: "env \<Rightarrow> world \<Rightarrow> int" where
  "now e w = clock e (length (trace w))"

definition fetch :: "env \<Rightarrow> request \<Rightarrow> world \<Rightarrow> (error + response) \<times> world" where
  "fetch e rq w =
     (case http e (length (trace w)) rq of
        None \<Rightarrow> (Inl FetchRejected, emit (Fetch rq) w)
      | Some r \<Rightarrow> (Inr r, emit (Fetch rq) w))"

definition response_json :: "response \<Rightarrow> error + json" where
  "response_json r = (case body r of None \<Rightarrow> Inl SyntaxError | Some v \<Rightarrow> Inr v)"

text \<open>\<^verbatim>\<open>JSON.parse(await fs.readFile(path, 'utf8'))\<close>: either step may throw.\<close>

definition read_json :: "string \<Rightarrow> world \<Rightarrow> json option \<times> world" where
  "read_json path w =
     (case files w path of
        Absent \<Rightarrow> (None, emit (FileRead path) w)
      | NotJson \<Rightarrow> (None, emit (FileRead path) w)
      | Json v \<Rightarrow> (Some v, emit (FileRead path) w))"

text \<open>\<^verbatim>\<open>await fs.writeFile(path, JSON.stringify(v, null, 2))\<close>.\<close>

definition write_json :: "env \<Rightarrow> string \<Rightarrow> json \<Rightarrow> world \<Rightarrow> (error + unit) \<times> world" where
  "write_json e path v w =
     (case disk e (length (trace w)) path of
        Stored \<Rightarrow> (Inr (), emit (FileWrite path v) (w\<lparr>files := (files w)(path := Json v)\<rparr>))
      | Refused \<Rightarrow> (Inl WriteRejected, emit (FileWriteFailed path False) w)
      | Torn \<Rightarrow>
          (Inl WriteRejected,
           emit (FileWriteFailed path True) (w\<lparr>files := (files w)(path := NotJson)\<rparr>)))"

subsection \<open>The methods\<close>

text \<open>
  A method returns its result, or the error it threw, together with the instance and the
  world as it left them.
\<close>

type_synonym 'a outcome = "(error + 'a) \<times> puller \<times> world"

text \<open>\<^verbatim>\<open>authenticate\<close>, lines 37 to 58.\<close>

definition token_request :: "puller \<Rightarrow> request" where
  "token_request p =
     \<lparr> verb = POST, target = Some (JStr (''https://'' @ host p @ ''/connect/token'')),
       auth = Basic (clientId p) (clientSecret p),
       payload = Some ''grant_type=client_credentials'' \<rparr>"

definition authenticate :: "env \<Rightarrow> puller \<Rightarrow> world \<Rightarrow> unit outcome" where
  "authenticate e p w =
     (case fetch e (token_request p) w of
        (Inl err, w1) \<Rightarrow> (Inl err, p, w1)
      | (Inr r, w1) \<Rightarrow>
          if \<not> ok r then
            (case response_json r of
               Inl err \<Rightarrow> (Inl err, p, w1)
             | Inr error \<Rightarrow>
                 (case get_prop error ''error'' of
                    Inl err \<Rightarrow> (Inl err, p, w1)
                  | Inr v \<Rightarrow> (Inl (AuthenticationFailed (status r) v), p, w1)))
          else
            (case response_json r of
               Inl err \<Rightarrow> (Inl err, p, w1)
             | Inr data \<Rightarrow>
                 (case get_prop data ''access_token'' of
                    Inl err \<Rightarrow> (Inl err, p, w1)
                  | Inr tok \<Rightarrow>
                      (Inr (), p\<lparr>accessToken := tok\<rparr>, console_log LogAuthenticated w1))))"

text \<open>
  \<^verbatim>\<open>loadBookmark\<close>, lines 60 to 75. The \<^verbatim>\<open>catch\<close> block runs when the read, the parse
  or the member access on the parsed value throws.
\<close>

definition seed_bookmark :: "env \<Rightarrow> puller \<Rightarrow> world \<Rightarrow> unit outcome" where
  "seed_bookmark e p w =
     (let lookbackDate = now e w;
          lookbackDate' =
            setMonth (localTZA e) lookbackDate
              (getMonth (localTZA e) lookbackDate - initialLookbackMonths p)
      in case toISOString lookbackDate' of
           Inl err \<Rightarrow> (Inl err, p, w)
         | Inr sinceParam \<Rightarrow>
             (Inr (),
              p\<lparr>bookmark := Some (JStr (''https://'' @ host p
                    @ ''/api/audit/v1/logs?limit=1000&since='' @ encodeURIComponent sinceParam))\<rparr>,
              console_log (LogNoValidBookmark (initialLookbackMonths p) sinceParam) w))"

definition loadBookmark :: "env \<Rightarrow> puller \<Rightarrow> world \<Rightarrow> unit outcome" where
  "loadBookmark e p w =
     (case read_json (bookmarkFile p) w of
        (None, w1) \<Rightarrow> seed_bookmark e p w1
      | (Some bm, w1) \<Rightarrow>
          (case get_prop bm ''nextUrl'' of
             Inl err \<Rightarrow> seed_bookmark e p w1
           | Inr nextUrl \<Rightarrow>
               (Inr (), p\<lparr>bookmark := nextUrl\<rparr>, console_log (LogLoadedBookmark nextUrl) w1)))"

text \<open>
  \<^verbatim>\<open>saveBookmark\<close>, lines 77 to 86. \<^verbatim>\<open>new Date()\<close> is the clock's time, which is a
  valid date.
\<close>

definition saveBookmark :: "env \<Rightarrow> json option \<Rightarrow> puller \<Rightarrow> world \<Rightarrow> unit outcome" where
  "saveBookmark e nextUrl p w =
     (let bookmarkData =
            stringify_obj [(''nextUrl'', nextUrl),
                           (''lastUpdated'', Some (JStr (iso_string (now e w))))]
      in case write_json e (bookmarkFile p) bookmarkData w of
           (Inl err, w1) \<Rightarrow> (Inl err, p, w1)
         | (Inr u, w1) \<Rightarrow>
             (Inr (), p\<lparr>bookmark := nextUrl\<rparr>, console_log (LogBookmarkSaved nextUrl) w1))"

text \<open>\<^verbatim>\<open>fetchLogs\<close>, lines 88 to 108.\<close>

definition logs_request :: "puller \<Rightarrow> request" where
  "logs_request p =
     \<lparr> verb = GET, target = bookmark p, auth = Bearer (accessToken p), payload = None \<rparr>"

definition fetchLogs :: "env \<Rightarrow> puller \<Rightarrow> world \<Rightarrow> (error + json) \<times> world" where
  "fetchLogs e p w =
     (if \<not> truthy (accessToken p) then (Inl NotAuthenticated, w)
      else
        (case fetch e (logs_request p) w of
           (Inl err, w1) \<Rightarrow> (Inl err, w1)
         | (Inr r, w1) \<Rightarrow>
             if \<not> ok r then
               (case response_json r of
                  Inl err \<Rightarrow> (Inl err, w1)
                | Inr error \<Rightarrow>
                    (case get_prop error ''title'' of
                       Inl err \<Rightarrow> (Inl err, w1)
                     | Inr title \<Rightarrow>
                         if truthy title then (Inl (FetchLogsFailed (status r) title), w1)
                         else
                           (case get_prop error ''message'' of
                              Inl err \<Rightarrow> (Inl err, w1)
                            | Inr message \<Rightarrow> (Inl (FetchLogsFailed (status r) message), w1))))
             else
               (case response_json r of
                  Inl err \<Rightarrow> (Inl err, w1)
                | Inr v \<Rightarrow> (Inr v, w1))))"

text \<open>
  \<^verbatim>\<open>appendLogsToFile\<close>, lines 110 to 130. The \<^verbatim>\<open>catch\<close> block is empty, so a file that
  is missing or is not JSON leaves \<^verbatim>\<open>existingLogs\<close> the empty array. The concatenation
  and the write stand after the \<^verbatim>\<open>try\<close> statement: what they throw leaves the method.
\<close>

definition appendLogsToFile ::
  "env \<Rightarrow> puller \<Rightarrow> json option \<Rightarrow> world \<Rightarrow> (error + unit) \<times> world" where
  "appendLogsToFile e p logs w =
     (case logs of
        None \<Rightarrow> (Inr (), w)
      | Some l \<Rightarrow>
          if \<not> truthy logs \<or> js_length l = Some (JNum 0) then (Inr (), w)
          else
            (let (parsed, w1) = read_json (outputFile p) w;
                 existingLogs = (case parsed of None \<Rightarrow> JArr [] | Some v \<Rightarrow> v)
             in case js_concat existingLogs l of
                  Inl err \<Rightarrow> (Inl err, w1)
                | Inr allLogs \<Rightarrow>
                    (case write_json e (outputFile p) allLogs w1 of
                       (Inl err, w2) \<Rightarrow> (Inl err, w2)
                     | (Inr u, w2) \<Rightarrow>
                         (Inr (), console_log (LogAppended (js_length l) (outputFile p)) w2))))"

text \<open>
  One turn of the \<^verbatim>\<open>while\<close> loop of \<^verbatim>\<open>pullLogs\<close>, lines 146 to 182. It returns
  \<^verbatim>\<open>hasMore\<close> and \<^verbatim>\<open>totalLogsPulled\<close>. The comparison \<^verbatim>\<open>logs.length > 0\<close> is
  followed for a length that is a number or \<^verbatim>\<open>undefined\<close> (which is not greater than
  zero); any other length can only come from a \<^verbatim>\<open>results\<close> object with a \<^verbatim>\<open>length\<close>
  member of its own and is \<open>OutsideModel\<close>.
\<close>

definition caught_up :: "env \<Rightarrow> int \<Rightarrow> puller \<Rightarrow> world \<Rightarrow> (bool \<times> int) outcome" where
  "caught_up e totalLogsPulled p w =
     (let w1 = console_log LogCaughtUp w;
          bookmarkData =
            stringify_obj [(''nextUrl'', bookmark p),
                           (''lastUpdated'', Some (JStr (iso_string (now e w1)))),
                           (''note'', Some (JStr ''Caught up to real-time - no new logs available''))]
      in case write_json e (bookmarkFile p) bookmarkData w1 of
           (Inl err, w2) \<Rightarrow> (Inl err, p, w2)
         | (Inr u, w2) \<Rightarrow>
             (Inr (False, totalLogsPulled), p,
              emit (Delay 100) (console_log (LogSavedPosition (bookmark p)) w2)))"

definition got_logs ::
  "env \<Rightarrow> json \<Rightarrow> json \<Rightarrow> int \<Rightarrow> int \<Rightarrow> puller \<Rightarrow> world \<Rightarrow> (bool \<times> int) outcome" where
  "got_logs e response logs n totalLogsPulled p w =
     (case appendLogsToFile e p (Some logs) w of
        (Inl err, w1) \<Rightarrow> (Inl err, p, w1)
      | (Inr u, w1) \<Rightarrow>
          (let totalLogsPulled' = totalLogsPulled + n;
               w2 = console_log (LogPulled n totalLogsPulled') w1
           in case get_prop response ''next'' of
                Inl err \<Rightarrow> (Inl err, p, w2)
              | Inr next \<Rightarrow>
                  if truthy next then
                    (case saveBookmark e next p w2 of
                       (Inl err, p', w3) \<Rightarrow> (Inl err, p', w3)
                     | (Inr u', p', w3) \<Rightarrow>
                         (Inr (True, totalLogsPulled'), p', emit (Delay 100) w3))
                  else
                    (Inr (False, totalLogsPulled'), p,
                     emit (Delay 100) (console_log LogNoNextUrl w2))))"

definition loop_body :: "env \<Rightarrow> int \<Rightarrow> puller \<Rightarrow> world \<Rightarrow> (bool \<times> int) outcome" where
  "loop_body e totalLogsPulled p w =
     (case fetchLogs e p (console_log LogFetching w) of
        (Inl err, w1) \<Rightarrow> (Inl err, p, w1)
      | (Inr response, w1) \<Rightarrow>
          (case get_prop response ''results'' of
             Inl err \<Rightarrow> (Inl err, p, w1)
           | Inr results \<Rightarrow>
               (let logs = js_or results (JArr []);
                    w2 = console_log (LogFetched (js_length logs)) w1
                in case js_length logs of
                     None \<Rightarrow> caught_up e totalLogsPulled p w2
                   | Some (JNum n) \<Rightarrow>
                       if n > 0 then got_logs e response logs n totalLogsPulled p w2
                       else caught_up e totalLogsPulled p w2
                   | Some v \<Rightarrow> (Inl OutsideModel, p, w2))))"

text \<open>
  The loop. It is entered with \<^verbatim>\<open>hasMore = true\<close> and turns as long as the body leaves
  it so, which may be forever: \<open>None\<close> is the run that never returns.
\<close>

partial_function (option) sync_loop ::
  "env \<Rightarrow> int \<Rightarrow> puller \<Rightarrow> world \<Rightarrow> int outcome option" where
  "sync_loop e totalLogsPulled p w =
     (case loop_body e totalLogsPulled p w of
        (Inl err, p', w') \<Rightarrow> Some (Inl err, p', w')
      | (Inr (hasMore, totalLogsPulled'), p', w') \<Rightarrow>
          if hasMore then sync_loop e totalLogsPulled' p' w'
          else Some (Inr totalLogsPulled', p', w'))"

text \<open>
  \<^verbatim>\<open>pullLogs\<close>, lines 132 to 191: the \<^verbatim>\<open>try\<close> block, then the \<^verbatim>\<open>catch\<close> that logs the
  error and throws it again. The method has no \<^verbatim>\<open>return\<close> statement, so the value it
  resolves to is \<^verbatim>\<open>undefined\<close>.
\<close>

definition pullLogs_try :: "env \<Rightarrow> puller \<Rightarrow> world \<Rightarrow> (json option) outcome option" where
  "pullLogs_try e p w =
     (case authenticate e p (console_log LogStarting w) of
        (Inl err, p1, w1) \<Rightarrow> Some (Inl err, p1, w1)
      | (Inr u, p1, w1) \<Rightarrow>
          (case loadBookmark e p1 w1 of
             (Inl err, p2, w2) \<Rightarrow> Some (Inl err, p2, w2)
           | (Inr u', p2, w2) \<Rightarrow>
               (case sync_loop e 0 p2 w2 of
                  None \<Rightarrow> None
                | Some (Inl err, p3, w3) \<Rightarrow> Some (Inl err, p3, w3)
                | Some (Inr totalLogsPulled, p3, w3) \<Rightarrow>
                    Some (Inr None, p3, console_log (LogCompleted totalLogsPulled) w3))))"

definition pullLogs :: "env \<Rightarrow> puller \<Rightarrow> world \<Rightarrow> (json option) outcome option" where
  "pullLogs e p w =
     (case pullLogs_try e p w of
        None \<Rightarrow> None
      | Some (Inl err, p', w') \<Rightarrow> Some (Inl err, p', console_log (LogError err) w')
      | Some (Inr v, p', w') \<Rightarrow> Some (Inr v, p', w'))"

subsection \<open>Notions used in the statements\<close>

text \<open>What \<^verbatim>\<open>appendLogsToFile\<close> takes as \<^verbatim>\<open>existingLogs\<close> in a given world.\<close>

definition existing_logs :: "puller \<Rightarrow> world \<Rightarrow> json" where
  "existing_logs p w = (case files w (outputFile p) of Json v \<Rightarrow> v | _ \<Rightarrow> JArr [])"

text \<open>A length that \<^verbatim>\<open>logs.length > 0\<close> finds not greater than zero.\<close>

definition no_records :: "json option \<Rightarrow> bool" where
  "no_records len \<longleftrightarrow> (case len of None \<Rightarrow> True | Some (JNum n) \<Rightarrow> n \<le> 0 | Some v \<Rightarrow> False)"

definition caught_up_note :: string where
  "caught_up_note = ''Caught up to real-time - no new logs available''"

text \<open>The two forms of the bookmark file: lines 172 to 176, and lines 78 to 81.\<close>

definition caught_up_cursor :: "json option \<Rightarrow> string \<Rightarrow> json" where
  "caught_up_cursor locator ts =
     stringify_obj [(''nextUrl'', locator), (''lastUpdated'', Some (JStr ts)),
                    (''note'', Some (JStr caught_up_note))]"

definition saved_cursor :: "json option \<Rightarrow> string \<Rightarrow> json" where
  "saved_cursor locator ts =
     stringify_obj [(''nextUrl'', locator), (''lastUpdated'', Some (JStr ts))]"

fun is_fetch :: "event \<Rightarrow> bool" where
  "is_fetch (Fetch rq) = True"
| "is_fetch ev = False"

text \<open>The world after a write that stored its value, and after one that was rejected.\<close>

definition stored :: "string \<Rightarrow> json \<Rightarrow> world \<Rightarrow> world" where
  "stored path v w = emit (FileWrite path v) (w\<lparr>files := (files w)(path := Json v)\<rparr>)"

definition rejected :: "string \<Rightarrow> bool \<Rightarrow> world \<Rightarrow> world" where
  "rejected path torn w =
     emit (FileWriteFailed path torn)
       (if torn then w\<lparr>files := (files w)(path := NotJson)\<rparr> else w)"

text \<open>
  What a list of calls does to the files: the content of every file after the calls, given
  the content before. A turn of the loop changes the files by its calls and in no other
  way, so the files at any moment of the turn are the replay of the calls made until then.
\<close>

fun apply_event :: "event \<Rightarrow> (string \<Rightarrow> file_content) \<Rightarrow> (string \<Rightarrow> file_content)" where
  "apply_event (FileWrite path v) f = f(path := Json v)"
| "apply_event (FileWriteFailed path torn) f = (if torn then f(path := NotJson) else f)"
| "apply_event ev f = f"

definition replay :: "event list \<Rightarrow> (string \<Rightarrow> file_content) \<Rightarrow> (string \<Rightarrow> file_content)" where
  "replay evs f = fold apply_event evs f"

text \<open>The error that \<^verbatim>\<open>authenticate\<close> throws on a response that is not \<^verbatim>\<open>ok\<close>.\<close>

definition auth_error :: "response \<Rightarrow> error" where
  "auth_error r =
     (case body r of
        None \<Rightarrow> SyntaxError
      | Some pl \<Rightarrow>
          (case get_prop pl ''error'' of
             Inl err \<Rightarrow> err
           | Inr v \<Rightarrow> AuthenticationFailed (status r) v))"

text \<open>
  The number that an "Appended n logs" line of the console reports, and the sum of these
  numbers over a list of lines: the records of all pages appended.
\<close>

fun appended :: "log_line \<Rightarrow> int" where
  "appended (LogAppended (Some (JNum n)) path) = n"
| "appended l = 0"

definition appended_total :: "log_line list \<Rightarrow> int" where
  "appended_total ls = sum_list (map appended ls)"

text \<open>The world of a turn after the page was fetched and the output file read.\<close>

definition after_read :: "puller \<Rightarrow> int \<Rightarrow> world \<Rightarrow> world" where
  "after_read p n w =
     emit (FileRead (outputFile p))
       (console_log (LogFetched (Some (JNum n)))
         (emit (Fetch (logs_request p)) (console_log LogFetching w)))"

definition after_append :: "puller \<Rightarrow> int \<Rightarrow> int \<Rightarrow> json \<Rightarrow> world \<Rightarrow> world" where
  "after_append p n t allLogs w =
     console_log (LogPulled n (t + n))
       (console_log (LogAppended (Some (JNum n)) (outputFile p))
         (stored (outputFile p) allLogs (after_read p n w)))"

subsection \<open>A sample deployment\<close>

text \<open>
  A configuration with the defaults, an empty directory, an instance that has
  authenticated and loaded the bookmark \<^verbatim>\<open>L1\<close>, and a server that answers the token
  request with \<open>token\<close>, a request for the logs at \<^verbatim>\<open>L1\<close> with \<open>first\<close> and at any
  other target with \<open>later\<close>. The clock stands at 2024-05-31T12:00:00.000Z, in UTC, and
  every write is stored.
\<close>

definition demo_config :: config where
  "demo_config =
     \<lparr> cfg_host = None, cfg_clientId = Some ''id'', cfg_clientSecret = Some ''secret'',
       cfg_bookmarkFile = None, cfg_outputFile = None, cfg_initialLookbackMonths = None \<rparr>"

definition demo_world :: world where
  "demo_world = \<lparr> files = (\<lambda>path. Absent), trace = [], console = [] \<rparr>"

definition demo_syncing :: puller where
  "demo_syncing =
     (TrelicaLogPuller demo_config)\<lparr> accessToken := Some (JStr ''token''),
                                      bookmark := Some (JStr ''L1'') \<rparr>"

definition token_response :: response where
  "token_response = \<lparr> status = 200, body = Some (JObj [(''access_token'', JStr ''token'')]) \<rparr>"

definition page_more :: response where
  "page_more =
     \<lparr> status = 200,
       body = Some (JObj [(''results'', JArr [JStr ''r1'', JStr ''r2'']), (''next'', JStr ''L2'')]) \<rparr>"

definition page_last :: response where
  "page_last = \<lparr> status = 200, body = Some (JObj [(''results'', JArr [JStr ''r1''])]) \<rparr>"

definition page_empty :: response where
  "page_empty = \<lparr> status = 200, body = Some (JObj [(''results'', JArr []), (''next'', JNull)]) \<rparr>"

definition page_bare :: response where
  "page_bare = \<lparr> status = 200, body = Some (JObj []) \<rparr>"

definition demo_env :: "response \<Rightarrow> response \<Rightarrow> response \<Rightarrow> env" where
  "demo_env token first later =
     \<lparr> http = (\<lambda>t rq. case verb rq of
                     POST \<Rightarrow> Some token
                   | GET \<Rightarrow> Some (if target rq = Some (JStr ''L1'') then first else later)),
       clock = (\<lambda>t. 1717156800000),
       localTZA = (\<lambda>t utc. 0),
       disk = (\<lambda>t path. Stored) \<rparr>"

text \<open>
  The same, where every write to the file at \<open>path\<close> is rejected: its directory is
  missing, or the file is read-only.
\<close>

definition refusing :: "string \<Rightarrow> env \<Rightarrow> env" where
  "refusing path e = e\<lparr> disk := (\<lambda>t q. if q = path then Refused else Stored) \<rparr>"

text \<open>A directory whose output file holds text that is not JSON.\<close>

definition garbled_world :: world where
  "garbled_world = demo_world\<lparr> files := (files demo_world)(''trelica_logs.json'' := NotJson) \<rparr>"

text \<open>Two answers of the token endpoint that are not \<^verbatim>\<open>ok\<close>: one without a JSON body, one with.\<close>

definition gateway_error :: response where
  "gateway_error = \<lparr> status = 502, body = None \<rparr>"

definition unauthorized :: response where
  "unauthorized = \<lparr> status = 401, body = Some (JObj [(''error'', JStr ''invalid_client'')]) \<rparr>"

text \<open>A directory in which an earlier run left the bookmark \<^verbatim>\<open>L1\<close>.\<close>

definition old_cursor :: json where
  "old_cursor = JObj [(''nextUrl'', JStr ''L1''), (''lastUpdated'', JStr ''2024-05-30T12:00:00.000Z'')]"

definition resumed_world :: world where
  "resumed_world = demo_world\<lparr> files := (files demo_world)(''trelica_bookmark.json'' := Json old_cursor) \<rparr>"

text \<open>
  The world after a whole run from that directory against a server with two records at
  \<^verbatim>\<open>L1\<close>, continued at \<^verbatim>\<open>L2\<close>, and none there.
\<close>

definition demo_stamp :: string where
  "demo_stamp = iso_string 1717156800000"

definition demo_final :: world where
  "demo_final =
     resumed_world\<lparr>
       files := (files resumed_world)
         (''trelica_logs.json'' := Json (JArr [JStr ''r1'', JStr ''r2'']),
          ''trelica_bookmark.json'' := Json (caught_up_cursor (Some (JStr ''L2'')) demo_stamp)),
       trace :=
         [Fetch (token_request (TrelicaLogPuller demo_config)),
          FileRead ''trelica_bookmark.json'',
          Fetch (logs_request demo_syncing),
          FileRead ''trelica_logs.json'',
          FileWrite ''trelica_logs.json'' (JArr [JStr ''r1'', JStr ''r2'']),
          FileWrite ''trelica_bookmark.json'' (saved_cursor (Some (JStr ''L2'')) demo_stamp),
          Delay 100,
          Fetch (logs_request (demo_syncing\<lparr>bookmark := Some (JStr ''L2'')\<rparr>)),
          FileWrite ''trelica_bookmark.json'' (caught_up_cursor (Some (JStr ''L2'')) demo_stamp),
          Delay 100],
       console :=
         [LogStarting, LogAuthenticated, LogLoadedBookmark (Some (JStr ''L1'')),
          LogFetching, LogFetched (Some (JNum 2)),
          LogAppended (Some (JNum 2)) ''trelica_logs.json'', LogPulled 2 2,
          LogBookmarkSaved (Some (JStr ''L2'')),
          LogFetching, LogFetched (Some (JNum 0)), LogCaughtUp,
          LogSavedPosition (Some (JStr ''L2'')), LogCompleted 2] \<rparr>"

subsection \<open>Facts about the world and the methods\<close>

lemmas demo_defs = demo_config_def demo_world_def demo_syncing_def token_response_def
  page_more_def page_last_def page_empty_def page_bare_def demo_env_def TrelicaLogPuller_def
  str_or_def num_or_def logs_request_def token_request_def ok_def
  gateway_error_def unauthorized_def refusing_def

lemma emit_sel [simp]:
  "trace (emit ev w) = trace w @ [ev]" "console (emit ev w) = console w" "files (emit ev w) = files w"
  by (simp_all add: emit_def)

lemma console_log_sel [simp]:
  "trace (console_log l w) = trace w" "console (console_log l w) = console w @ [l]"
  "files (console_log l w) = files w"
  by (simp_all add: console_log_def)

lemma stored_sel [simp]:
  "trace (stored path v w) = trace w @ [FileWrite path v]"
  "console (stored path v w) = console w"
  "files (stored path v w) = (files w)(path := Json v)"
  by (simp_all add: stored_def)

lemma rejected_sel [simp]:
  "trace (rejected path torn w) = trace w @ [FileWriteFailed path torn]"
  "console (rejected path torn w) = console w"
  "files (rejected path torn w) = (if torn then (files w)(path := NotJson) else files w)"
  by (simp_all add: rejected_def)

lemma write_json_eq:
  "write_json e path v w =
     (case disk e (length (trace w)) path of
        Stored \<Rightarrow> (Inr (), stored path v w)
      | Refused \<Rightarrow> (Inl WriteRejected, rejected path False w)
      | Torn \<Rightarrow> (Inl WriteRejected, rejected path True w))"
  by (simp add: write_json_def stored_def rejected_def split: write_result.splits)

lemma read_json_eq:
  "read_json path w = (case files w path of Json v \<Rightarrow> Some v | _ \<Rightarrow> None, emit (FileRead path) w)"
  by (simp add: read_json_def split: file_content.splits)

lemma now_simps [simp]:
  "now e (console_log l w) = now e w"
  by (simp add: now_def)

lemma replay_simps [simp]:
  "replay [] f = f"
  "replay (ev # evs) f = replay evs (apply_event ev f)"
  "replay (evs @ evs') f = replay evs' (replay evs f)"
  by (simp_all add: replay_def)

lemma fetchLogs_page:
  assumes "truthy (accessToken p)" "http e (length (trace w)) (logs_request p) = Some r"
    "ok r" "body r = Some v"
  shows "fetchLogs e p w = (Inr v, emit (Fetch (logs_request p)) w)"
  using assms by (simp add: fetchLogs_def fetch_def response_json_def)

lemma fetchLogs_page_logged:
  assumes "truthy (accessToken p)" "http e (length (trace w)) (logs_request p) = Some r"
    "ok r" "body r = Some v"
  shows "fetchLogs e p (console_log l w) = (Inr v, emit (Fetch (logs_request p)) (console_log l w))"
  using assms by (intro fetchLogs_page) simp_all

lemma sync_loop_stop:
  "loop_body e t p w = (Inr (False, t'), p', w') \<Longrightarrow> sync_loop e t p w = Some (Inr t', p', w')"
  by (subst sync_loop.simps) simp

lemma sync_loop_error:
  "loop_body e t p w = (Inl err, p', w') \<Longrightarrow> sync_loop e t p w = Some (Inl err, p', w')"
  by (subst sync_loop.simps) simp

lemma sync_loop_continue:
  "loop_body e t p w = (Inr (True, t'), p', w') \<Longrightarrow> sync_loop e t p w = sync_loop e t' p' w'"
  by (subst sync_loop.simps) simp

lemma loop_body_caught_up:
  assumes "truthy (accessToken p)" "http e (length (trace w)) (logs_request p) = Some r"
    "ok r" "body r = Some v" "get_prop v ''results'' = Inr res"
    "no_records (js_length (js_or res (JArr [])))"
  shows "loop_body e t p w =
     caught_up e t p (console_log (LogFetched (js_length (js_or res (JArr []))))
        (emit (Fetch (logs_request p)) (console_log LogFetching w)))"
  using assms
  by (simp add: loop_body_def fetchLogs_page_logged no_records_def Let_def
       split: option.splits json.splits)

lemma appendLogsToFile_records:
  assumes "js_length l = Some (JNum n)" "n > 0"
  shows "appendLogsToFile e p (Some l) w =
     (case js_concat (existing_logs p w) l of
        Inl err \<Rightarrow> (Inl err, emit (FileRead (outputFile p)) w)
      | Inr allLogs \<Rightarrow>
          (case disk e (length (trace w) + 1) (outputFile p) of
             Stored \<Rightarrow>
               (Inr (), console_log (LogAppended (Some (JNum n)) (outputFile p))
                  (stored (outputFile p) allLogs (emit (FileRead (outputFile p)) w)))
           | Refused \<Rightarrow>
               (Inl WriteRejected, rejected (outputFile p) False (emit (FileRead (outputFile p)) w))
           | Torn \<Rightarrow>
               (Inl WriteRejected, rejected (outputFile p) True (emit (FileRead (outputFile p)) w))))"
proof -
  have "truthy (Some l)" using assms by (cases l) auto
  then show ?thesis using assms
    by (simp add: appendLogsToFile_def read_json_eq write_json_eq existing_logs_def
          split: file_content.splits sum.splits write_result.splits)
qed

lemma caught_up_eq:
  "caught_up e t p w =
     (case disk e (length (trace w)) (bookmarkFile p) of
        Stored \<Rightarrow>
          (Inr (False, t), p,
           emit (Delay 100) (console_log (LogSavedPosition (bookmark p))
             (stored (bookmarkFile p) (caught_up_cursor (bookmark p) (iso_string (now e w)))
                (console_log LogCaughtUp w))))
      | Refused \<Rightarrow> (Inl WriteRejected, p, rejected (bookmarkFile p) False (console_log LogCaughtUp w))
      | Torn \<Rightarrow> (Inl WriteRejected, p, rejected (bookmarkFile p) True (console_log LogCaughtUp w)))"
  by (simp add: caught_up_def Let_def caught_up_note_def caught_up_cursor_def write_json_eq
        split: write_result.splits)

lemma saveBookmark_eq:
  "saveBookmark e nextUrl p w =
     (case disk e (length (trace w)) (bookmarkFile p) of
        Stored \<Rightarrow>
          (Inr (), p\<lparr>bookmark := nextUrl\<rparr>,
           console_log (LogBookmarkSaved nextUrl)
             (stored (bookmarkFile p) (saved_cursor nextUrl (iso_string (now e w))) w))
      | Refused \<Rightarrow> (Inl WriteRejected, p, rejected (bookmarkFile p) False w)
      | Torn \<Rightarrow> (Inl WriteRejected, p, rejected (bookmarkFile p) True w))"
  by (simp add: saveBookmark_def Let_def saved_cursor_def write_json_eq
        split: write_result.splits)

lemma loop_body_records_failed:
  assumes "truthy (accessToken p)" "http e (length (trace w)) (logs_request p) = Some r"
    "ok r" "body r = Some v" "get_prop v ''results'' = Inr (Some (JArr (x # xs)))"
    "js_concat (existing_logs p w) (JArr (x # xs)) = Inl err"
  shows "loop_body e t p w =
     (Inl err, p,
      emit (FileRead (outputFile p))
        (console_log (LogFetched (Some (JNum (1 + int (length xs)))))
          (emit (Fetch (logs_request p)) (console_log LogFetching w))))"
  using assms
  by (simp add: loop_body_def fetchLogs_page_logged js_or_def Let_def got_logs_def
        appendLogsToFile_records [where n = "1 + int (length xs)"] existing_logs_def)

lemma loop_body_records:
  assumes "truthy (accessToken p)" "http e (length (trace w)) (logs_request p) = Some r"
    "ok r" "body r = Some v" "get_prop v ''results'' = Inr (Some (JArr (x # xs)))"
    "js_concat (existing_logs p w) (JArr (x # xs)) = Inr allLogs"
    "get_prop v ''next'' = Inr nx" "n = 1 + int (length xs)"
  shows "loop_body e t p w =
     (case disk e (length (trace w) + 2) (outputFile p) of
        Stored \<Rightarrow>
          if truthy nx then
            (case disk e (length (trace w) + 3) (bookmarkFile p) of
               Stored \<Rightarrow>
                 (Inr (True, t + n), p\<lparr>bookmark := nx\<rparr>,
                  emit (Delay 100) (console_log (LogBookmarkSaved nx)
                    (stored (bookmarkFile p)
                       (saved_cursor nx (iso_string (clock e (length (trace w) + 3))))
                       (after_append p n t allLogs w))))
             | Refused \<Rightarrow>
                 (Inl WriteRejected, p, rejected (bookmarkFile p) False (after_append p n t allLogs w))
             | Torn \<Rightarrow>
                 (Inl WriteRejected, p, rejected (bookmarkFile p) True (after_append p n t allLogs w)))
          else
            (Inr (False, t + n), p,
             emit (Delay 100) (console_log LogNoNextUrl (after_append p n t allLogs w)))
      | Refused \<Rightarrow> (Inl WriteRejected, p, rejected (outputFile p) False (after_read p n w))
      | Torn \<Rightarrow> (Inl WriteRejected, p, rejected (outputFile p) True (after_read p n w)))"
  using assms
  by (simp add: loop_body_def fetchLogs_page_logged js_or_def Let_def got_logs_def
        appendLogsToFile_records [where n = "1 + int (length xs)"] existing_logs_def
        saveBookmark_eq now_def numeral_3_eq_3 numeral_2_eq_2 after_read_def after_append_def
        split: write_result.splits)

lemma loop_body_empty:
  assumes "truthy (accessToken p)" "http e (length (trace w)) (logs_request p) = Some r"
    "ok r" "body r = Some v" "get_prop v ''results'' = Inr res"
    "no_records (js_length (js_or res (JArr [])))"
  shows "loop_body e t p w =
     (case disk e (length (trace w) + 1) (bookmarkFile p) of
        Stored \<Rightarrow>
          (Inr (False, t), p,
           emit (Delay 100) (console_log (LogSavedPosition (bookmark p))
             (stored (bookmarkFile p)
                (caught_up_cursor (bookmark p) (iso_string (clock e (length (trace w) + 1))))
             (console_log LogCaughtUp
             (console_log (LogFetched (js_length (js_or res (JArr []))))
             (emit (Fetch (logs_request p)) (console_log LogFetching w)))))))
      | Refused \<Rightarrow>
          (Inl WriteRejected, p,
           rejected (bookmarkFile p) False
             (console_log LogCaughtUp
             (console_log (LogFetched (js_length (js_or res (JArr []))))
             (emit (Fetch (logs_request p)) (console_log LogFetching w)))))
      | Torn \<Rightarrow>
          (Inl WriteRejected, p,
           rejected (bookmarkFile p) True
             (console_log LogCaughtUp
             (console_log (LogFetched (js_length (js_or res (JArr []))))
             (emit (Fetch (logs_request p)) (console_log LogFetching w))))))"
  using loop_body_caught_up [OF assms, of t]
  by (simp add: caught_up_eq now_def split: write_result.splits)

lemma caught_up_cursor_nextUrl:
  "get_prop (caught_up_cursor locator ts) ''nextUrl'' = Inr locator"
  by (cases locator) (simp_all add: caught_up_cursor_def stringify_obj_def List.map_filter_simps)

lemma caught_up_cursor_note:
  "get_prop (caught_up_cursor locator ts) ''note'' = Inr (Some (JStr caught_up_note))"
  by (cases locator) (simp_all add: caught_up_cursor_def stringify_obj_def List.map_filter_simps)

lemma caught_up_cursor_lastUpdated:
  "get_prop (caught_up_cursor locator ts) ''lastUpdated'' = Inr (Some (JStr ts))"
  by (cases locator) (simp_all add: caught_up_cursor_def stringify_obj_def List.map_filter_simps)

lemma loadBookmark_reads_cursor:
  assumes "files w (bookmarkFile q) = Json c" "get_prop c ''nextUrl'' = Inr locator"
  shows "loadBookmark e q w =
     (Inr (), q\<lparr>bookmark := locator\<rparr>,
      console_log (LogLoadedBookmark locator) (emit (FileRead (bookmarkFile q)) w))"
  using assms by (simp add: loadBookmark_def read_json_eq)


lemma js_concat_error: "js_concat a b = Inl err \<Longrightarrow> err = TypeError"
  by (cases "(a, b)" rule: js_concat.cases) auto

lemma get_prop_obj_total:
  "get_prop v name = Inr (Some x) \<Longrightarrow> \<exists>y. get_prop v name' = Inr y"
  by (cases v) auto

lemma turn_concat_failed:
  assumes "truthy (accessToken p)" "http e (length (trace w)) (logs_request p) = Some r"
    "ok r" "body r = Some v" "get_prop v ''results'' = Inr (Some (JArr (x # xs)))"
    "js_concat (existing_logs p w) (JArr (x # xs)) = Inl err"
    "loop_body e t p w = (res, p', w')"
  shows "res = Inl err" "p' = p" "files w' = files w" "console w' = console w @ [LogFetching, LogFetched (Some (JNum (1 + int (length xs))))]"
    "trace w' = trace w @ [Fetch (logs_request p), FileRead (outputFile p)]"
  using loop_body_records_failed [OF assms(1-6), of t] assms(7) by auto

lemma turn_append_rejected:
  assumes "truthy (accessToken p)" "http e (length (trace w)) (logs_request p) = Some r"
    "ok r" "body r = Some v" "get_prop v ''results'' = Inr (Some (JArr (x # xs)))"
    "js_concat (existing_logs p w) (JArr (x # xs)) = Inr allLogs"
    "disk e (length (trace w) + 2) (outputFile p) \<noteq> Stored"
    "loop_body e t p w = (res, p', w')"
  shows "res = Inl WriteRejected" "p' = p"
    "files w' = (if disk e (length (trace w) + 2) (outputFile p) = Torn
                 then (files w)(outputFile p := NotJson) else files w)"
    "trace w' = trace w @ [Fetch (logs_request p), FileRead (outputFile p),
        FileWriteFailed (outputFile p) (disk e (length (trace w) + 2) (outputFile p) = Torn)]"
proof -
  from get_prop_obj_total [OF assms(5)] obtain nx where nx: "get_prop v ''next'' = Inr nx"
    by blast
  have b: "loop_body e t p w =
      (Inl WriteRejected, p,
       rejected (outputFile p) (disk e (length (trace w) + 2) (outputFile p) = Torn)
         (after_read p (1 + int (length xs)) w))"
    using loop_body_records [OF assms(1-6) nx refl, of t] assms(7)
    by (cases "disk e (length (trace w) + 2) (outputFile p)") simp_all
  from b assms(8) show "res = Inl WriteRejected" "p' = p" by simp_all
  from b assms(8) show "files w' = (if disk e (length (trace w) + 2) (outputFile p) = Torn
                 then (files w)(outputFile p := NotJson) else files w)"
    by (auto simp: after_read_def)
  from b assms(8) show "trace w' = trace w @ [Fetch (logs_request p), FileRead (outputFile p),
        FileWriteFailed (outputFile p) (disk e (length (trace w) + 2) (outputFile p) = Torn)]"
    by (auto simp: after_read_def)
qed

lemma after_append_sel [simp]:
  "trace (after_append p n t allLogs w) =
     trace w @ [Fetch (logs_request p), FileRead (outputFile p), FileWrite (outputFile p) allLogs]"
  "files (after_append p n t allLogs w) = (files w)(outputFile p := Json allLogs)"
  "console (after_append p n t allLogs w) =
     console w @ [LogFetching, LogFetched (Some (JNum n)),
                  LogAppended (Some (JNum n)) (outputFile p), LogPulled n (t + n)]"
  by (simp_all add: after_append_def after_read_def)

lemma turn_last_page:
  assumes "truthy (accessToken p)" "http e (length (trace w)) (logs_request p) = Some r"
    "ok r" "body r = Some v" "get_prop v ''results'' = Inr (Some (JArr (x # xs)))"
    "js_concat (existing_logs p w) (JArr (x # xs)) = Inr allLogs"
    "disk e (length (trace w) + 2) (outputFile p) = Stored"
    "get_prop v ''next'' = Inr nx" "\<not> truthy nx"
  shows "loop_body e t p w =
     (Inr (False, t + (1 + int (length xs))), p,
      emit (Delay 100) (console_log LogNoNextUrl
        (after_append p (1 + int (length xs)) t allLogs w)))"
  using loop_body_records [OF assms(1-6) assms(8) refl, of t] assms(7,9) by simp

lemma turn_next_page:
  assumes "truthy (accessToken p)" "http e (length (trace w)) (logs_request p) = Some r"
    "ok r" "body r = Some v" "get_prop v ''results'' = Inr (Some (JArr (x # xs)))"
    "js_concat (existing_logs p w) (JArr (x # xs)) = Inr allLogs"
    "disk e (length (trace w) + 2) (outputFile p) = Stored"
    "get_prop v ''next'' = Inr nx" "truthy nx"
    "disk e (length (trace w) + 3) (bookmarkFile p) = Stored"
  shows "loop_body e t p w =
     (Inr (True, t + (1 + int (length xs))), p\<lparr>bookmark := nx\<rparr>,
      emit (Delay 100) (console_log (LogBookmarkSaved nx)
        (stored (bookmarkFile p) (saved_cursor nx (iso_string (clock e (length (trace w) + 3))))
           (after_append p (1 + int (length xs)) t allLogs w))))"
  using loop_body_records [OF assms(1-6) assms(8) refl, of t] assms(7,9,10) by simp

lemma turn_cursor_rejected:
  assumes "truthy (accessToken p)" "http e (length (trace w)) (logs_request p) = Some r"
    "ok r" "body r = Some v" "get_prop v ''results'' = Inr (Some (JArr (x # xs)))"
    "js_concat (existing_logs p w) (JArr (x # xs)) = Inr allLogs"
    "disk e (length (trace w) + 2) (outputFile p) = Stored"
    "get_prop v ''next'' = Inr nx" "truthy nx"
    "disk e (length (trace w) + 3) (bookmarkFile p) \<noteq> Stored"
  shows "loop_body e t p w =
     (Inl WriteRejected, p,
      rejected (bookmarkFile p) (disk e (length (trace w) + 3) (bookmarkFile p) = Torn)
        (after_append p (1 + int (length xs)) t allLogs w))"
  using loop_body_records [OF assms(1-6) assms(8) refl, of t] assms(7,9,10)
  by (cases "disk e (length (trace w) + 3) (bookmarkFile p)") simp_all


lemma caught_up_turn:
  assumes "truthy (accessToken p)" "http e (length (trace w)) (logs_request p) = Some r"
    "ok r" "body r = Some v" "get_prop v ''results'' = Inr res"
    "no_records (js_length (js_or res (JArr [])))"
  shows "\<exists>res' w'. sync_loop e t p w = Some (res', p, w')
      \<and> filter is_fetch (trace w') = filter is_fetch (trace w) @ [Fetch (logs_request p)]
      \<and> (disk e (length (trace w) + 1) (bookmarkFile p) = Stored \<longrightarrow>
            res' = Inr t
            \<and> trace w' = trace w @ [Fetch (logs_request p),
                  FileWrite (bookmarkFile p)
                    (caught_up_cursor (bookmark p) (iso_string (clock e (length (trace w) + 1)))),
                  Delay 100]
            \<and> files w' = (files w)(bookmarkFile p :=
                  Json (caught_up_cursor (bookmark p) (iso_string (clock e (length (trace w) + 1)))))
            \<and> (\<forall>e' q. bookmarkFile q = bookmarkFile p \<longrightarrow>
                  fst (loadBookmark e' q w') = Inr ()
                  \<and> bookmark (fst (snd (loadBookmark e' q w'))) = bookmark p))
      \<and> (disk e (length (trace w) + 1) (bookmarkFile p) \<noteq> Stored \<longrightarrow>
            res' = Inl WriteRejected
            \<and> trace w' = trace w @ [Fetch (logs_request p),
                  FileWriteFailed (bookmarkFile p)
                    (disk e (length (trace w) + 1) (bookmarkFile p) = Torn)]
            \<and> files w' = (if disk e (length (trace w) + 1) (bookmarkFile p) = Torn
                           then (files w)(bookmarkFile p := NotJson) else files w))"
proof (cases "disk e (length (trace w) + 1) (bookmarkFile p) = Stored")
  case True
  let ?cur = "caught_up_cursor (bookmark p) (iso_string (clock e (length (trace w) + 1)))"
  let ?w' = "emit (Delay 100) (console_log (LogSavedPosition (bookmark p))
             (stored (bookmarkFile p) ?cur
             (console_log LogCaughtUp
             (console_log (LogFetched (js_length (js_or res (JArr []))))
             (emit (Fetch (logs_request p)) (console_log LogFetching w))))))"
  have "loop_body e t p w = (Inr (False, t), p, ?w')"
    using loop_body_empty [OF assms, of t] True by simp
  then have run: "sync_loop e t p w = Some (Inr t, p, ?w')"
    by (rule sync_loop_stop)
  have tr: "trace ?w' = trace w @ [Fetch (logs_request p), FileWrite (bookmarkFile p) ?cur, Delay 100]"
    by simp
  have fs: "files ?w' = (files w)(bookmarkFile p := Json ?cur)"
    by simp
  have "fst (loadBookmark e' q ?w') = Inr ()
      \<and> bookmark (fst (snd (loadBookmark e' q ?w'))) = bookmark p"
    if "bookmarkFile q = bookmarkFile p" for e' q
    using that
    by (subst (1 2) loadBookmark_reads_cursor [where c = ?cur and locator = "bookmark p"])
      (simp_all add: caught_up_cursor_nextUrl)
  with run tr fs True show ?thesis
    by (intro exI [of _ "Inr t"] exI [of _ ?w']) simp
next
  case False
  let ?torn = "disk e (length (trace w) + 1) (bookmarkFile p) = Torn"
  let ?w' = "rejected (bookmarkFile p) ?torn
             (console_log LogCaughtUp
             (console_log (LogFetched (js_length (js_or res (JArr []))))
             (emit (Fetch (logs_request p)) (console_log LogFetching w))))"
  have "loop_body e t p w = (Inl WriteRejected, p, ?w')"
    using loop_body_empty [OF assms, of t] False
    by (cases "disk e (length (trace w) + 1) (bookmarkFile p)") simp_all
  then have run: "sync_loop e t p w = Some (Inl WriteRejected, p, ?w')"
    by (rule sync_loop_error)
  with False show ?thesis
    by (intro exI [of _ "Inl WriteRejected"] exI [of _ ?w']) simp
qed

lemma authenticate_ok:
  assumes "http e (length (trace w)) (token_request p) = Some r" "ok r" "body r = Some d"
    "get_prop d ''access_token'' = Inr tok"
  shows "authenticate e p w =
     (Inr (), p\<lparr>accessToken := tok\<rparr>,
      console_log LogAuthenticated (emit (Fetch (token_request p)) w))"
  using assms by (simp add: authenticate_def fetch_def response_json_def)

lemma authenticate_rejected:
  assumes "http e (length (trace w)) (token_request p) = Some r" "\<not> ok r"
  shows "authenticate e p w = (Inl (auth_error r), p, emit (Fetch (token_request p)) w)"
  using assms
  by (simp add: authenticate_def fetch_def response_json_def auth_error_def
        split: option.splits sum.splits)

lemma pullLogs_rejected:
  assumes "http e (length (trace w)) (token_request p) = Some r" "\<not> ok r"
  shows "pullLogs e p w =
     Some (Inl (auth_error r), p,
       console_log (LogError (auth_error r))
         (emit (Fetch (token_request p)) (console_log LogStarting w)))"
proof -
  have "authenticate e p (console_log LogStarting w) =
      (Inl (auth_error r), p, emit (Fetch (token_request p)) (console_log LogStarting w))"
    using assms by (intro authenticate_rejected) simp_all
  then show ?thesis by (simp add: pullLogs_def pullLogs_try_def)
qed

lemma fetchLogs_console: "fetchLogs e p w = (r, w1) \<Longrightarrow> console w1 = console w"
  by (auto simp: fetchLogs_def fetch_def split: if_splits option.splits sum.splits)

lemma caught_up_console:
  assumes "caught_up e t p w = (Inr (h, t'), p', w')"
  shows "\<exists>ls. console w' = console w @ ls \<and> t' = t + appended_total ls"
proof -
  from assms have "console w' = console w @ [LogCaughtUp, LogSavedPosition (bookmark p)]" "t' = t"
    by (auto simp: caught_up_eq split: write_result.splits)
  then show ?thesis by (intro exI [of _ "[LogCaughtUp, LogSavedPosition (bookmark p)]"])
      (simp add: appended_total_def)
qed

lemma appendLogsToFile_console:
  assumes "js_length logs = Some (JNum n)" "n > 0"
    "appendLogsToFile e p (Some logs) w = (Inr u, w1)"
  shows "console w1 = console w @ [LogAppended (Some (JNum n)) (outputFile p)]"
  using assms(3) unfolding appendLogsToFile_records [OF assms(1,2)]
  by (auto split: sum.splits write_result.splits)

lemma saveBookmark_console:
  assumes "saveBookmark e nx p w = (Inr u, p', w1)"
  shows "console w1 = console w @ [LogBookmarkSaved nx]"
  using assms by (auto simp: saveBookmark_eq split: write_result.splits)

lemma got_logs_console:
  assumes "js_length logs = Some (JNum n)" "n > 0"
    "got_logs e v logs n t p w = (Inr (h, t'), p', w')"
  shows "\<exists>ls. console w' = console w @ ls \<and> t' = t + appended_total ls"
proof -
  obtain ar w1 where a: "appendLogsToFile e p (Some logs) w = (ar, w1)"
    by (cases "appendLogsToFile e p (Some logs) w")
  with assms(3) obtain u where ar: "ar = Inr u"
    by (cases ar) (auto simp: got_logs_def)
  from appendLogsToFile_console [OF assms(1,2) a [unfolded ar]]
  have c1: "console w1 = console w @ [LogAppended (Some (JNum n)) (outputFile p)]" .
  from assms(3) a ar obtain nx where nx: "get_prop v ''next'' = Inr nx"
    by (cases "get_prop v ''next''") (auto simp: got_logs_def Let_def)
  let ?w2 = "console_log (LogPulled n (t + n)) w1"
  show ?thesis
  proof (cases "truthy nx")
    case True
    obtain sr p2 w3 where s: "saveBookmark e nx p ?w2 = (sr, p2, w3)"
      by (cases "saveBookmark e nx p ?w2")
    with assms(3) a ar nx True obtain u' where sr: "sr = Inr u'"
      by (cases sr) (auto simp: got_logs_def Let_def)
    from saveBookmark_console [OF s [unfolded sr]] c1
    have c3: "console w3 = console w @
        [LogAppended (Some (JNum n)) (outputFile p), LogPulled n (t + n), LogBookmarkSaved nx]"
      by simp
    from assms(3) a ar nx True s sr have "w' = emit (Delay 100) w3" "t' = t + n"
      by (auto simp: got_logs_def Let_def)
    with c3 show ?thesis
      by (intro exI [of _ "[LogAppended (Some (JNum n)) (outputFile p), LogPulled n (t + n),
            LogBookmarkSaved nx]"]) (simp add: appended_total_def)
  next
    case False
    with assms(3) a ar nx
    have "w' = emit (Delay 100) (console_log LogNoNextUrl ?w2)" "t' = t + n"
      by (auto simp: got_logs_def Let_def)
    with c1 show ?thesis
      by (intro exI [of _ "[LogAppended (Some (JNum n)) (outputFile p), LogPulled n (t + n),
            LogNoNextUrl]"]) (simp add: appended_total_def)
  qed
qed

lemma appended_total_append [simp]:
  "appended_total (xs @ ys) = appended_total xs + appended_total ys"
  by (simp add: appended_total_def)

lemma loop_body_console:
  assumes "loop_body e t p w = (Inr (h, t'), p', w')"
  shows "\<exists>ls. console w' = console w @ ls \<and> t' = t + appended_total ls"
proof -
  obtain fr w1 where f: "fetchLogs e p (console_log LogFetching w) = (fr, w1)"
    by (cases "fetchLogs e p (console_log LogFetching w)")
  from fetchLogs_console [OF f] have c1: "console w1 = console w @ [LogFetching]" by simp
  from f assms obtain response where fr: "fr = Inr response"
    by (cases fr) (auto simp: loop_body_def)
  from f fr assms obtain results where res: "get_prop response ''results'' = Inr results"
    by (cases "get_prop response ''results''") (auto simp: loop_body_def)
  let ?logs = "js_or results (JArr [])"
  let ?w2 = "console_log (LogFetched (js_length ?logs)) w1"
  have c2: "console ?w2 = console w @ [LogFetching, LogFetched (js_length ?logs)]"
    using c1 by simp
  have "\<exists>ls. console w' = console ?w2 @ ls \<and> t' = t + appended_total ls"
  proof (cases "js_length ?logs")
    case None
    with f fr res assms have "caught_up e t p ?w2 = (Inr (h, t'), p', w')"
      by (simp add: loop_body_def Let_def)
    then show ?thesis by (rule caught_up_console)
  next
    case (Some len)
    show ?thesis
    proof (cases len)
      case (JNum n)
      show ?thesis
      proof (cases "n > 0")
        case True
        with f fr res assms Some JNum
        have "got_logs e response ?logs n t p ?w2 = (Inr (h, t'), p', w')"
          by (simp add: loop_body_def Let_def)
        from got_logs_console [OF _ True this] Some JNum show ?thesis by simp
      next
        case False
        with f fr res assms Some JNum have "caught_up e t p ?w2 = (Inr (h, t'), p', w')"
          by (simp add: loop_body_def Let_def)
        then show ?thesis by (rule caught_up_console)
      qed
    qed (use f fr res assms Some in \<open>simp_all add: loop_body_def Let_def\<close>)
  qed
  then obtain ls where "console w' = console ?w2 @ ls" "t' = t + appended_total ls" by blast
  with c2 show ?thesis
    by (intro exI [of _ "[LogFetching, LogFetched (js_length ?logs)] @ ls"])
      (simp add: appended_total_def)
qed

lemma sync_loop_console:
  assumes "sync_loop e t p w = Some (Inr T, p', w')"
  shows "\<exists>ls. console w' = console w @ ls \<and> T = t + appended_total ls"
proof -
  have "\<forall>T p' w'. y = (Inr T, p', w') \<longrightarrow>
           (\<exists>ls. console w' = console w @ ls \<and> T = t + appended_total ls)"
    if "sync_loop e t p w = Some y" for y
  proof (rule sync_loop.raw_induct
      [where P = "\<lambda>e t p w y. \<forall>T p' w'. y = (Inr T, p', w') \<longrightarrow>
           (\<exists>ls. console w' = console w @ ls \<and> T = t + appended_total ls)", OF _ that])
    fix sl :: "env \<Rightarrow> int \<Rightarrow> puller \<Rightarrow> world \<Rightarrow> int outcome option"
    fix e t p w y
    assume IH: "\<And>e t p w y. sl e t p w = Some y \<Longrightarrow>
        \<forall>T p' w'. y = (Inr T, p', w') \<longrightarrow>
           (\<exists>ls. console w' = console w @ ls \<and> T = t + appended_total ls)"
    assume eqn: "(case loop_body e t p w of
          (Inl err, p', w') \<Rightarrow> Some (Inl err, p', w')
        | (Inr (hasMore, totalLogsPulled'), p', w') \<Rightarrow>
            if hasMore then sl e totalLogsPulled' p' w'
            else Some (Inr totalLogsPulled', p', w')) = Some y"
    obtain res p1 w1 where b: "loop_body e t p w = (res, p1, w1)"
      by (cases "loop_body e t p w")
    show "\<forall>T p' w'. y = (Inr T, p', w') \<longrightarrow>
           (\<exists>ls. console w' = console w @ ls \<and> T = t + appended_total ls)"
    proof (cases res)
      case (Inl err)
      with b eqn show ?thesis by auto
    next
      case (Inr ht)
      obtain h t1 where ht: "ht = (h, t1)" by (cases ht)
      from loop_body_console [OF b [unfolded Inr ht]] obtain ls1 where
        ls1: "console w1 = console w @ ls1" "t1 = t + appended_total ls1" by blast
      show ?thesis
      proof (cases h)
        case True
        with b Inr ht eqn have "sl e t1 p1 w1 = Some y" by simp
        from IH [OF this] have
          step: "\<forall>T p' w'. y = (Inr T, p', w') \<longrightarrow>
             (\<exists>ls. console w' = console w1 @ ls \<and> T = t1 + appended_total ls)" .
        show ?thesis
        proof (intro allI impI)
          fix T p' w' assume "y = (Inr T, p', w')"
          with step obtain ls where "console w' = console w1 @ ls" "T = t1 + appended_total ls"
            by blast
          with ls1 show "\<exists>ls. console w' = console w @ ls \<and> T = t + appended_total ls"
            by (intro exI [of _ "ls1 @ ls"]) simp
        qed
      next
        case False
        with b Inr ht eqn have "y = (Inr t1, p1, w1)" by simp
        with ls1 show ?thesis by auto
      qed
    qed
  qed
  from this [OF assms] show ?thesis by blast
qed

lemma authenticate_console:
  assumes "authenticate e p w = (Inr u, p1, w1)"
  shows "console w1 = console w @ [LogAuthenticated]"
  using assms
  by (auto simp: authenticate_def fetch_def split: option.splits sum.splits if_splits)

lemma loadBookmark_console:
  assumes "loadBookmark e p w = (Inr u, p1, w1)"
  shows "\<exists>l. console w1 = console w @ [l] \<and> appended l = 0"
  using assms
  by (auto simp: loadBookmark_def seed_bookmark_def read_json_eq Let_def
      split: file_content.splits sum.splits)

lemma demo_disk [simp]: "disk (demo_env a b c) t path = Stored"
  by (simp add: demo_env_def)

lemma demo_run:
  "pullLogs (demo_env token_response page_more page_empty) (TrelicaLogPuller demo_config)
      resumed_world
     = Some (Inr None, demo_syncing\<lparr>bookmark := Some (JStr ''L2'')\<rparr>, demo_final)"
proof -
  let ?e = "demo_env token_response page_more page_empty"
  let ?p0 = "TrelicaLogPuller demo_config"
  let ?w0 = "console_log LogStarting resumed_world"
  let ?w1 = "console_log LogAuthenticated (emit (Fetch (token_request ?p0)) ?w0)"
  let ?w2 = "console_log (LogLoadedBookmark (Some (JStr ''L1'')))
               (emit (FileRead ''trelica_bookmark.json'') ?w1)"
  let ?p2 = "demo_syncing\<lparr>bookmark := Some (JStr ''L2'')\<rparr>"
  have a: "authenticate ?e ?p0 ?w0 = (Inr (), ?p0\<lparr>accessToken := Some (JStr ''token'')\<rparr>, ?w1)"
    by (rule authenticate_ok [where r = token_response and d = "JObj [(''access_token'', JStr ''token'')]"])
      (simp_all add: demo_defs)
  have l: "loadBookmark ?e (?p0\<lparr>accessToken := Some (JStr ''token'')\<rparr>) ?w1
      = (Inr (), demo_syncing, ?w2)"
    by (subst loadBookmark_reads_cursor [where c = old_cursor and locator = "Some (JStr ''L1'')"])
      (simp_all add: demo_defs resumed_world_def old_cursor_def)
  let ?w3 = "emit (Delay 100) (console_log (LogBookmarkSaved (Some (JStr ''L2'')))
        (stored ''trelica_bookmark.json'' (saved_cursor (Some (JStr ''L2'')) demo_stamp)
           (after_append demo_syncing 2 0 (JArr [JStr ''r1'', JStr ''r2'']) ?w2)))"
  have b1: "loop_body ?e 0 demo_syncing ?w2 = (Inr (True, 2), ?p2, ?w3)"
    using turn_next_page [where e = ?e and p = demo_syncing and w = ?w2 and t = 0
        and r = page_more and x = "JStr ''r1''" and xs = "[JStr ''r2'']"
        and nx = "Some (JStr ''L2'')" and allLogs = "JArr [JStr ''r1'', JStr ''r2'']"
        and v = "JObj [(''results'', JArr [JStr ''r1'', JStr ''r2'']), (''next'', JStr ''L2'')]"]
    by (simp add: demo_defs resumed_world_def existing_logs_def demo_stamp_def)
  let ?w4 = "emit (Delay 100) (console_log (LogSavedPosition (Some (JStr ''L2'')))
           (stored ''trelica_bookmark.json'' (caught_up_cursor (Some (JStr ''L2'')) demo_stamp)
           (console_log LogCaughtUp
           (console_log (LogFetched (Some (JNum 0)))
           (emit (Fetch (logs_request ?p2)) (console_log LogFetching ?w3))))))"
  have b2: "loop_body ?e 2 ?p2 ?w3 = (Inr (False, 2), ?p2, ?w4)"
    using loop_body_empty [where e = ?e and p = ?p2 and w = ?w3 and t = 2 and r = page_empty
        and v = "JObj [(''results'', JArr []), (''next'', JNull)]" and res = "Some (JArr [])"]
    by (simp add: demo_defs demo_stamp_def no_records_def js_or_def)
  have "sync_loop ?e 0 demo_syncing ?w2 = Some (Inr 2, ?p2, ?w4)"
    using sync_loop_continue [OF b1] sync_loop_stop [OF b2] by simp
  with a l show ?thesis
    by (simp add: pullLogs_def pullLogs_try_def demo_final_def emit_def console_log_def
        stored_def after_append_def after_read_def resumed_world_def demo_world_def demo_defs
        fun_upd_twist)
qed

lemma refusing_disk [simp]:
  "disk (refusing path e) t q = (if q = path then Refused else Stored)"
  by (simp add: refusing_def)

lemma refusing_sel [simp]:
  "http (refusing path e) = http e" "clock (refusing path e) = clock e"
  "localTZA (refusing path e) = localTZA e"
  by (simp_all add: refusing_def)

lemma demo_files [simp]:
  "bookmarkFile demo_syncing = ''trelica_bookmark.json''"
  "outputFile demo_syncing = ''trelica_logs.json''"
  "bookmark demo_syncing = Some (JStr ''L1'')"
  by (simp_all add: demo_defs)

lemma demo_clock [simp]: "clock (demo_env a b c) t = 1717156800000"
  by (simp add: demo_env_def)

lemma demo_turn_more:
  "truthy (accessToken demo_syncing)"
  "http (demo_env token_response page_more later) (length (trace demo_world))
     (logs_request demo_syncing) = Some page_more"
  "http (demo_env token_response page_more later) (length (trace resumed_world))
     (logs_request demo_syncing) = Some page_more"
  "ok page_more"
  "body page_more = Some (JObj [(''results'', JArr [JStr ''r1'', JStr ''r2'']), (''next'', JStr ''L2'')])"
  "get_prop (JObj [(''results'', JArr [JStr ''r1'', JStr ''r2'']), (''next'', JStr ''L2'')])
     ''results'' = Inr (Some (JArr (JStr ''r1'' # [JStr ''r2''])))"
  "get_prop (JObj [(''results'', JArr [JStr ''r1'', JStr ''r2'']), (''next'', JStr ''L2'')])
     ''next'' = Inr (Some (JStr ''L2''))"
  by (simp_all add: demo_defs resumed_world_def)

lemma demo_turn_last:
  "http (demo_env token_response page_last later) (length (trace demo_world))
     (logs_request demo_syncing) = Some page_last"
  "http (demo_env token_response page_last later) (length (trace resumed_world))
     (logs_request demo_syncing) = Some page_last"
  "ok page_last"
  "body page_last = Some (JObj [(''results'', JArr [JStr ''r1''])])"
  "get_prop (JObj [(''results'', JArr [JStr ''r1''])]) ''results'' = Inr (Some (JArr (JStr ''r1'' # [])))"
  "get_prop (JObj [(''results'', JArr [JStr ''r1''])]) ''next'' = Inr None"
  by (simp_all add: demo_defs resumed_world_def)

lemma demo_turn_empty:
  "http (demo_env token_response page_empty later) (length (trace demo_world))
     (logs_request demo_syncing) = Some page_empty"
  "ok page_empty"
  "body page_empty = Some (JObj [(''results'', JArr []), (''next'', JNull)])"
  "get_prop (JObj [(''results'', JArr []), (''next'', JNull)]) ''results'' = Inr (Some (JArr []))"
  by (simp_all add: demo_defs)

lemma demo_turn_bare:
  "http (demo_env token_response page_bare later) (length (trace demo_world))
     (logs_request demo_syncing) = Some page_bare"
  "ok page_bare"
  "body page_bare = Some (JObj [])"
  "get_prop (JObj []) ''results'' = Inr None"
  by (simp_all add: demo_defs)

lemma demo_existing [simp]:
  "existing_logs demo_syncing demo_world = JArr []"
  "existing_logs demo_syncing resumed_world = JArr []"
  by (simp_all add: existing_logs_def demo_world_def resumed_world_def)

lemma demo_trace [simp]: "trace demo_world = []" "trace resumed_world = []"
  "console demo_world = []" "console resumed_world = []"
  by (simp_all add: demo_world_def resumed_world_def)

subsection \<open>The claims\<close>



text \<open>
  Claim C2 (as amended). After a successful fetch, in a turn of the loop that ends without
  an error: when the page has at least one record and a continuation locator, the bookmark
  file is overwritten with that locator and the loop goes on from it; when the page has no
  record, the bookmark file is overwritten with the current locator and the caught-up
  note, whether or not a continuation locator came with the page; when the page has
  records but no continuation locator, the only file written is the output file, and the
  bookmark is left as it was.
\<close>

theorem cursor_overwritten_after_fetch:
  assumes "truthy (accessToken p)" "http e (length (trace w)) (logs_request p) = Some r"
    "ok r" "body r = Some v" "get_prop v ''results'' = Inr (Some (JArr xs))"
    "get_prop v ''next'' = Inr nx"
    "loop_body e t p w = (Inr (hasMore, t'), p', w')"
  shows "(xs \<noteq> [] \<and> truthy nx \<longrightarrow>
            (\<exists>ts. files w' (bookmarkFile p) = Json (saved_cursor nx ts))
            \<and> bookmark p' = nx \<and> hasMore)
       \<and> (xs = [] \<longrightarrow>
            (\<exists>ts. files w' (bookmarkFile p) = Json (caught_up_cursor (bookmark p) ts))
            \<and> bookmark p' = bookmark p \<and> \<not> hasMore)
       \<and> (xs \<noteq> [] \<and> \<not> truthy nx \<longrightarrow>
            (\<exists>allLogs. trace w' = trace w @ [Fetch (logs_request p), FileRead (outputFile p),
                           FileWrite (outputFile p) allLogs, Delay 100]
               \<and> files w' = (files w)(outputFile p := Json allLogs))
            \<and> bookmark p' = bookmark p \<and> \<not> hasMore)"
proof (cases xs)
  case Nil
  with assms(5) have res: "get_prop v ''results'' = Inr (Some (JArr []))" by simp
  have nr: "no_records (js_length (js_or (Some (JArr [])) (JArr [])))"
    by (simp add: no_records_def js_or_def)
  from loop_body_empty [OF assms(1-4) res nr, of t] assms(7) Nil show ?thesis
    by (cases "disk e (length (trace w) + 1) (bookmarkFile p)") auto
next
  case (Cons x ys)
  with assms(5) have res: "get_prop v ''results'' = Inr (Some (JArr (x # ys)))" by simp
  show ?thesis
  proof (cases "js_concat (existing_logs p w) (JArr (x # ys))")
    case (Inl err)
    from loop_body_records_failed [OF assms(1-4) res Inl, of t] assms(7) show ?thesis
      by simp
  next
    case (Inr allLogs)
    show ?thesis
    proof (cases "disk e (length (trace w) + 2) (outputFile p) = Stored")
      case False
      from turn_append_rejected(1) [OF assms(1-4) res Inr False assms(7)] show ?thesis
        by simp
    next
      case out: True
      show ?thesis
      proof (cases "truthy nx")
        case True
        show ?thesis
        proof (cases "disk e (length (trace w) + 3) (bookmarkFile p) = Stored")
          case bm: True
          from turn_next_page [OF assms(1-4) res Inr out assms(6) True bm, of t] assms(7) Cons True
          show ?thesis by auto
        next
          case False
          from turn_cursor_rejected [OF assms(1-4) res Inr out assms(6) True False, of t] assms(7)
          show ?thesis by simp
        qed
      next
        case False
        from turn_last_page [OF assms(1-4) res Inr out assms(6) False, of t] assms(7) Cons False
        show ?thesis by auto
      qed
    qed
  qed
qed

theorem cursor_overwritten_after_fetch_witness:
  "truthy (accessToken demo_syncing) \<and> ok page_more
   \<and> fst (loop_body (demo_env token_response page_more page_empty) 0 demo_syncing resumed_world)
       = Inr (True, 2)
   \<and> (\<exists>ts. files (snd (snd (loop_body (demo_env token_response page_more page_empty) 0
                                demo_syncing resumed_world))) ''trelica_bookmark.json''
          = Json (saved_cursor (Some (JStr ''L2'')) ts))"
proof -
  let ?e = "demo_env token_response page_more page_empty"
  note h = demo_turn_more(1,3,4,5,6,7)
  have c: "js_concat (existing_logs demo_syncing resumed_world) (JArr (JStr ''r1'' # [JStr ''r2'']))
      = Inr (JArr [JStr ''r1'', JStr ''r2''])"
    by simp
  have run: "loop_body ?e 0 demo_syncing resumed_world =
      (Inr (True, 2), fst (snd (loop_body ?e 0 demo_syncing resumed_world)),
       snd (snd (loop_body ?e 0 demo_syncing resumed_world)))"
    by (simp add: turn_next_page [OF h(1-5) c _ h(6)])
  have "fst (loop_body ?e 0 demo_syncing resumed_world) = Inr (True, 2)"
    by (subst run) simp
  with cursor_overwritten_after_fetch [OF h run] h(1,3) show ?thesis
    by simp
qed

text \<open>
  The claim as it stands fails where it says "in particular": the server answers the
  request at \<^verbatim>\<open>L1\<close> with one record and no \<^verbatim>\<open>next\<close>; the loop appends the record and
  returns, and the bookmark file still holds what the earlier run left there. The only
  file written is the output file.
\<close>

theorem cursor_overwritten_counterexample:
  "sync_loop (demo_env token_response page_last page_empty) 0 demo_syncing resumed_world
     = Some (Inr 1, demo_syncing,
         resumed_world\<lparr>
           files := (files resumed_world)(''trelica_logs.json'' := Json (JArr [JStr ''r1''])),
           trace := [Fetch (logs_request demo_syncing), FileRead ''trelica_logs.json'',
                     FileWrite ''trelica_logs.json'' (JArr [JStr ''r1'']), Delay 100],
           console := [LogFetching, LogFetched (Some (JNum 1)),
                       LogAppended (Some (JNum 1)) ''trelica_logs.json'', LogPulled 1 1,
                       LogNoNextUrl] \<rparr>)
   \<and> ((files resumed_world)(''trelica_logs.json'' := Json (JArr [JStr ''r1''])))
        ''trelica_bookmark.json'' = Json old_cursor"
proof -
  note h = demo_turn_more(1) demo_turn_last(2-5)
  have c: "js_concat (existing_logs demo_syncing resumed_world) (JArr (JStr ''r1'' # []))
      = Inr (JArr [JStr ''r1''])"
    by simp
  have n: "\<not> truthy None"
    by simp
  from sync_loop_stop [OF turn_last_page [OF h c _ demo_turn_last(6) n, where t = 0]] show ?thesis
    by (simp add: after_append_def after_read_def emit_def console_log_def stored_def
        resumed_world_def demo_world_def)
qed

text \<open>
  Claim C3 (as amended). When the page fetched at the current bookmark has zero records,
  the loop returns after this one request, and the instance is unchanged. When the write
  of the bookmark file is stored, the loop returns normally with the total as it was; the
  only file written is the bookmark file, which then holds the cursor \<open>cur\<close>: the current
  locator (the bookmark the request was made with, not a new one), the time of the clock
  at the write as the timestamp, and the caught-up note; loading the bookmark from the
  resulting world gives the same locator again. When the write is rejected, the loop ends
  with that error and no cursor has been persisted: the bookmark file is as it was, or
  unparseable if the write was torn.
\<close>

theorem zero_records_ends_loop_at_current_cursor:
  assumes "truthy (accessToken p)" "http e (length (trace w)) (logs_request p) = Some r"
    "ok r" "body r = Some v" "get_prop v ''results'' = Inr (Some (JArr []))"
    "cur = caught_up_cursor (bookmark p) (iso_string (clock e (length (trace w) + 1)))"
  shows "\<exists>res w'. sync_loop e t p w = Some (res, p, w')
      \<and> filter is_fetch (trace w') = filter is_fetch (trace w) @ [Fetch (logs_request p)]
      \<and> (disk e (length (trace w) + 1) (bookmarkFile p) = Stored \<longrightarrow>
            res = Inr t
            \<and> trace w' = trace w @ [Fetch (logs_request p), FileWrite (bookmarkFile p) cur,
                  Delay 100]
            \<and> files w' = (files w)(bookmarkFile p := Json cur)
            \<and> (\<forall>e' q. bookmarkFile q = bookmarkFile p \<longrightarrow>
                  fst (loadBookmark e' q w') = Inr ()
                  \<and> bookmark (fst (snd (loadBookmark e' q w'))) = bookmark p))
      \<and> (disk e (length (trace w) + 1) (bookmarkFile p) \<noteq> Stored \<longrightarrow>
            res = Inl WriteRejected
            \<and> trace w' = trace w @ [Fetch (logs_request p),
                  FileWriteFailed (bookmarkFile p)
                    (disk e (length (trace w) + 1) (bookmarkFile p) = Torn)]
            \<and> files w' = (if disk e (length (trace w) + 1) (bookmarkFile p) = Torn
                           then (files w)(bookmarkFile p := NotJson) else files w))
      \<and> get_prop cur ''nextUrl'' = Inr (bookmark p)
      \<and> get_prop cur ''note'' = Inr (Some (JStr caught_up_note))
      \<and> get_prop cur ''lastUpdated''
          = Inr (Some (JStr (iso_string (clock e (length (trace w) + 1)))))"
proof -
  have "no_records (js_length (js_or (Some (JArr [])) (JArr [])))"
    by (simp add: no_records_def js_or_def)
  from caught_up_turn [OF assms(1-5) this, of t] show ?thesis
    unfolding assms(6)
    by (simp add: caught_up_cursor_nextUrl caught_up_cursor_note caught_up_cursor_lastUpdated)
qed

theorem zero_records_ends_loop_at_current_cursor_witness:
  "truthy (accessToken demo_syncing) \<and> ok page_empty
   \<and> disk (demo_env token_response page_empty page_empty) 1 ''trelica_bookmark.json'' = Stored
   \<and> (\<exists>w'. sync_loop (demo_env token_response page_empty page_empty) 0 demo_syncing demo_world
                  = Some (Inr 0, demo_syncing, w')
          \<and> trace w' = [Fetch (logs_request demo_syncing),
                FileWrite ''trelica_bookmark.json'' (caught_up_cursor (Some (JStr ''L1'')) demo_stamp),
                Delay 100]
          \<and> files w' ''trelica_bookmark.json''
              = Json (caught_up_cursor (Some (JStr ''L1'')) demo_stamp)
          \<and> files w' ''trelica_logs.json'' = Absent
          \<and> bookmark (fst (snd (loadBookmark (demo_env token_response page_empty page_empty)
                (TrelicaLogPuller demo_config) w'))) = Some (JStr ''L1''))"
proof -
  let ?e = "demo_env token_response page_empty page_empty"
  let ?cur = "caught_up_cursor (Some (JStr ''L1'')) demo_stamp"
  note h = demo_turn_more(1) demo_turn_empty
  have cur: "?cur = caught_up_cursor (bookmark demo_syncing)
      (iso_string (clock ?e (length (trace demo_world) + 1)))"
    by (simp add: demo_stamp_def)
  have d: "disk ?e (length (trace demo_world) + 1) (bookmarkFile demo_syncing) = Stored"
    by simp
  have q: "bookmarkFile (TrelicaLogPuller demo_config) = bookmarkFile demo_syncing"
    by (simp add: demo_defs)
  from zero_records_ends_loop_at_current_cursor [OF h cur, where t = 0] d obtain res w' where
    r: "sync_loop ?e 0 demo_syncing demo_world = Some (res, demo_syncing, w')"
      "res = Inr 0"
      "trace w' = trace demo_world @ [Fetch (logs_request demo_syncing),
          FileWrite (bookmarkFile demo_syncing) ?cur, Delay 100]"
      "files w' = (files demo_world)(bookmarkFile demo_syncing := Json ?cur)"
      "\<forall>e' q. bookmarkFile q = bookmarkFile demo_syncing \<longrightarrow>
          fst (loadBookmark e' q w') = Inr ()
          \<and> bookmark (fst (snd (loadBookmark e' q w'))) = bookmark demo_syncing"
    by blast
  from r(5) q have "bookmark (fst (snd (loadBookmark ?e (TrelicaLogPuller demo_config) w')))
      = Some (JStr ''L1'')"
    by simp
  moreover from r(4) have "files w' ''trelica_bookmark.json'' = Json ?cur"
    "files w' ''trelica_logs.json'' = Absent"
    by (simp_all add: demo_world_def)
  ultimately show ?thesis
    using r(1-3) h(1,3) by simp
qed

text \<open>
  The claim as it stands fails when the bookmark file cannot be written (its directory is
  missing, the file is read-only, the disk is full): the page has zero records, the write
  at line 177 is rejected, the loop ends with that error, and the bookmark file holds what
  the earlier run left there, not a caught-up cursor.
\<close>

theorem zero_records_counterexample:
  "truthy (accessToken demo_syncing) \<and> ok page_empty
   \<and> http (refusing ''trelica_bookmark.json'' (demo_env token_response page_empty page_empty)) 0
        (logs_request demo_syncing) = Some page_empty
   \<and> body page_empty = Some (JObj [(''results'', JArr []), (''next'', JNull)])
   \<and> sync_loop (refusing ''trelica_bookmark.json'' (demo_env token_response page_empty page_empty))
        0 demo_syncing resumed_world
      = Some (Inl WriteRejected, demo_syncing,
          resumed_world\<lparr>
            trace := [Fetch (logs_request demo_syncing),
                      FileWriteFailed ''trelica_bookmark.json'' False],
            console := [LogFetching, LogFetched (Some (JNum 0)), LogCaughtUp] \<rparr>)
   \<and> files resumed_world ''trelica_bookmark.json'' = Json old_cursor"
proof -
  let ?e = "refusing ''trelica_bookmark.json'' (demo_env token_response page_empty page_empty)"
  have h: "truthy (accessToken demo_syncing)"
    "http ?e (length (trace resumed_world)) (logs_request demo_syncing) = Some page_empty"
    "ok page_empty"
    "body page_empty = Some (JObj [(''results'', JArr []), (''next'', JNull)])"
    "get_prop (JObj [(''results'', JArr []), (''next'', JNull)]) ''results'' = Inr (Some (JArr []))"
    by (simp_all add: demo_defs resumed_world_def)
  have nr: "no_records (js_length (js_or (Some (JArr [])) (JArr [])))"
    by (simp add: no_records_def js_or_def)
  have "loop_body ?e 0 demo_syncing resumed_world
      = (Inl WriteRejected, demo_syncing,
          resumed_world\<lparr>
            trace := [Fetch (logs_request demo_syncing),
                      FileWriteFailed ''trelica_bookmark.json'' False],
            console := [LogFetching, LogFetched (Some (JNum 0)), LogCaughtUp] \<rparr>)"
    by (subst loop_body_empty [OF h nr])
      (simp add: rejected_def emit_def console_log_def js_or_def resumed_world_def demo_world_def)
  from sync_loop_error [OF this] h show ?thesis
    by (simp add: resumed_world_def demo_world_def)
qed

text \<open>
  Claim C4. When the page fetched has one or more records and no continuation locator
  (its \<^verbatim>\<open>next\<close> member is falsy), the loop returns after this page: the request for the
  page is the only request it makes, whether the page could be appended or not. A normal
  return gives the total raised by the number of records, and the return is normal, with
  the output file updated, when the concatenation succeeds and its write is stored.
\<close>

theorem last_page_ends_loop:
  assumes "truthy (accessToken p)" "http e (length (trace w)) (logs_request p) = Some r"
    "ok r" "body r = Some v" "get_prop v ''results'' = Inr (Some (JArr (x # xs)))"
    "get_prop v ''next'' = Inr nx" "\<not> truthy nx"
  shows "\<exists>res w'. sync_loop e t p w = Some (res, p, w')
      \<and> filter is_fetch (trace w') = filter is_fetch (trace w) @ [Fetch (logs_request p)]
      \<and> (\<forall>T. res = Inr T \<longrightarrow> T = t + (1 + int (length xs)))
      \<and> (\<forall>allLogs. js_concat (existing_logs p w) (JArr (x # xs)) = Inr allLogs
            \<and> disk e (length (trace w) + 2) (outputFile p) = Stored \<longrightarrow>
            res = Inr (t + (1 + int (length xs)))
            \<and> files w' = (files w)(outputFile p := Json allLogs))"
proof (cases "js_concat (existing_logs p w) (JArr (x # xs))")
  case (Inl err)
  obtain res p' w' where b: "loop_body e t p w = (res, p', w')"
    by (cases "loop_body e t p w")
  from turn_concat_failed [OF assms(1-5) Inl b] b
  have "sync_loop e t p w = Some (Inl err, p, w')"
    "filter is_fetch (trace w') = filter is_fetch (trace w) @ [Fetch (logs_request p)]"
    by (auto intro: sync_loop_error)
  with Inl show ?thesis by auto
next
  case (Inr allLogs)
  show ?thesis
  proof (cases "disk e (length (trace w) + 2) (outputFile p) = Stored")
    case False
    obtain res p' w' where b: "loop_body e t p w = (res, p', w')"
      by (cases "loop_body e t p w")
    from turn_append_rejected [OF assms(1-5) Inr False b] b
    have "sync_loop e t p w = Some (Inl WriteRejected, p, w')"
      "filter is_fetch (trace w') = filter is_fetch (trace w) @ [Fetch (logs_request p)]"
      by (auto intro: sync_loop_error)
    with Inr False show ?thesis by auto
  next
    case True
    from sync_loop_stop [OF turn_last_page [OF assms(1-5) Inr True assms(6,7), of t]]
    have "sync_loop e t p w = Some (Inr (t + (1 + int (length xs))), p,
      emit (Delay 100) (console_log LogNoNextUrl
        (after_append p (1 + int (length xs)) t allLogs w)))" .
    with Inr show ?thesis by simp
  qed
qed

theorem last_page_ends_loop_witness:
  "truthy (accessToken demo_syncing) \<and> ok page_last \<and> \<not> truthy None
   \<and> (\<exists>w'. sync_loop (demo_env token_response page_last page_last) 0 demo_syncing demo_world
                  = Some (Inr 1, demo_syncing, w')
          \<and> filter is_fetch (trace w') = [Fetch (logs_request demo_syncing)]
          \<and> files w' ''trelica_logs.json'' = Json (JArr [JStr ''r1'']))"
proof -
  let ?e = "demo_env token_response page_last page_last"
  note h = demo_turn_more(1) demo_turn_last(1,3-6)
  have n: "\<not> truthy None"
    by simp
  have c: "js_concat (existing_logs demo_syncing demo_world) (JArr (JStr ''r1'' # []))
        = Inr (JArr [JStr ''r1''])
      \<and> disk ?e (length (trace demo_world) + 2) (outputFile demo_syncing) = Stored"
    by simp
  from last_page_ends_loop [OF h n, where t = 0] c obtain res w' where
    "sync_loop ?e 0 demo_syncing demo_world = Some (res, demo_syncing, w')"
    "filter is_fetch (trace w') = filter is_fetch (trace demo_world) @ [Fetch (logs_request demo_syncing)]"
    "res = Inr (0 + (1 + int (length ([]::json list))))"
    "files w' = (files demo_world)(outputFile demo_syncing := Json (JArr [JStr ''r1'']))"
    by blast
  then have "sync_loop ?e 0 demo_syncing demo_world = Some (Inr 1, demo_syncing, w')
     \<and> filter is_fetch (trace w') = [Fetch (logs_request demo_syncing)]
     \<and> files w' ''trelica_logs.json'' = Json (JArr [JStr ''r1''])"
    by simp
  with h(1,3) n show ?thesis by blast
qed

text \<open>
  Claim C6 (as amended). \<^verbatim>\<open>pullLogs\<close> has no \<^verbatim>\<open>return\<close> statement: a successful run
  resolves to \<^verbatim>\<open>undefined\<close>. What it reports is the last line of its console output,
  "Log pull completed. Total logs pulled: T", and \<open>T\<close> is the sum of the record counts of
  all the pages the run appended (the counts of its "Appended n logs" lines).
\<close>

theorem pullLogs_reports_total:
  assumes "pullLogs e p w = Some (Inr v, p', w')"
  shows "v = None
      \<and> (\<exists>ls. console w' = console w @ ls @ [LogCompleted (appended_total ls)])"
proof -
  from assms have body: "pullLogs_try e p w = Some (Inr v, p', w')"
    by (auto simp: pullLogs_def split: option.splits sum.splits)
  obtain r1 p1 w1 where a: "authenticate e p (console_log LogStarting w) = (r1, p1, w1)"
    by (cases "authenticate e p (console_log LogStarting w)")
  with body obtain u where r1: "r1 = Inr u" by (cases r1) (auto simp: pullLogs_try_def)
  obtain r2 p2 w2 where l: "loadBookmark e p1 w1 = (r2, p2, w2)"
    by (cases "loadBookmark e p1 w1")
  with body a r1 obtain u' where r2: "r2 = Inr u'" by (cases r2) (auto simp: pullLogs_try_def)
  from body a r1 l r2 obtain T w3 where
    loop: "sync_loop e 0 p2 w2 = Some (Inr T, p', w3)"
    and fin: "w' = console_log (LogCompleted T) w3" "v = None"
    by (auto simp: pullLogs_try_def split: option.splits sum.splits)
  from authenticate_console [OF a [unfolded r1]]
  have c1: "console w1 = console w @ [LogStarting, LogAuthenticated]" by simp
  from loadBookmark_console [OF l [unfolded r2]] obtain l2 where
    c2: "console w2 = console w1 @ [l2]" "appended l2 = 0" by blast
  from sync_loop_console [OF loop] obtain ls where
    c3: "console w3 = console w2 @ ls" "T = appended_total ls" by auto
  have "console w' = console w @ ([LogStarting, LogAuthenticated, l2] @ ls)
          @ [LogCompleted (appended_total ([LogStarting, LogAuthenticated, l2] @ ls))]"
    using fin c1 c2 c3 by (simp add: appended_total_def)
  with fin(2) show ?thesis by blast
qed

theorem pullLogs_reports_total_witness:
  "pullLogs (demo_env token_response page_more page_empty) (TrelicaLogPuller demo_config)
      resumed_world
     = Some (Inr None, demo_syncing\<lparr>bookmark := Some (JStr ''L2'')\<rparr>, demo_final)
   \<and> (\<exists>ls. console demo_final
          = console resumed_world @ ls @ [LogCompleted (appended_total ls)])"
  using demo_run pullLogs_reports_total [OF demo_run] by blast

text \<open>
  The claim as it stands fails on what is returned: the run below fetches two records, ends
  normally and logs a total of 2, and the value it returns is \<^verbatim>\<open>undefined\<close> (\<open>None\<close>), not
  a summary.
\<close>

theorem pullLogs_returns_no_summary:
  "pullLogs (demo_env token_response page_more page_empty) (TrelicaLogPuller demo_config)
      resumed_world
     = Some (Inr None, demo_syncing\<lparr>bookmark := Some (JStr ''L2'')\<rparr>, demo_final)
   \<and> files demo_final ''trelica_logs.json'' = Json (JArr [JStr ''r1'', JStr ''r2''])
   \<and> last (console demo_final) = LogCompleted 2"
  using demo_run by (simp add: demo_final_def)

text \<open>
  Claim C7 (as amended). When the token endpoint answers with a status that is not a
  success, the run ends with an error after that one request: no request for logs is made
  and no file is changed. When the body of the answer is JSON and not \<^verbatim>\<open>null\<close>, the error
  is the authentication error, which carries the status and the \<^verbatim>\<open>error\<close> member of the
  body.
\<close>

theorem failed_authentication_aborts_run:
  assumes "http e (length (trace w)) (token_request p) = Some r" "\<not> ok r"
  shows "\<exists>err w'. pullLogs e p w = Some (Inl err, p, w')
      \<and> trace w' = trace w @ [Fetch (token_request p)]
      \<and> files w' = files w
      \<and> (\<forall>pl v. body r = Some pl \<and> get_prop pl ''error'' = Inr v \<longrightarrow>
            err = AuthenticationFailed (status r) v)"
  using pullLogs_rejected [OF assms] by (auto simp: auth_error_def)

theorem failed_authentication_aborts_run_witness:
  "\<not> ok unauthorized
   \<and> (\<exists>w'. pullLogs (demo_env unauthorized page_more page_empty) (TrelicaLogPuller demo_config)
              demo_world
            = Some (Inl (AuthenticationFailed 401 (Some (JStr ''invalid_client''))),
                    TrelicaLogPuller demo_config, w')
         \<and> trace w' = [Fetch (token_request (TrelicaLogPuller demo_config))]
         \<and> files w' = files demo_world)"
proof -
  let ?e = "demo_env unauthorized page_more page_empty"
  let ?p = "TrelicaLogPuller demo_config"
  have h: "http ?e (length (trace demo_world)) (token_request ?p) = Some unauthorized"
    "\<not> ok unauthorized"
    by (simp_all add: demo_defs)
  have b: "body unauthorized = Some (JObj [(''error'', JStr ''invalid_client'')])
      \<and> get_prop (JObj [(''error'', JStr ''invalid_client'')]) ''error''
          = Inr (Some (JStr ''invalid_client''))"
    by (simp add: unauthorized_def)
  from failed_authentication_aborts_run [OF h] obtain err w' where
    r: "pullLogs ?e ?p demo_world = Some (Inl err, ?p, w')"
      "trace w' = trace demo_world @ [Fetch (token_request ?p)]"
      "files w' = files demo_world"
    and e: "\<forall>pl v. body unauthorized = Some pl \<and> get_prop pl ''error'' = Inr v \<longrightarrow>
            err = AuthenticationFailed (status unauthorized) v"
    by blast
  from e b have "err = AuthenticationFailed 401 (Some (JStr ''invalid_client''))"
    by (auto simp: unauthorized_def)
  with r h(2) show ?thesis by (auto simp: demo_world_def)
qed

text \<open>
  The claim as it stands fails when the body of the answer is not JSON: on a 502 with an
  HTML body \<^verbatim>\<open>response.json()\<close> rejects before the authentication error is built, and
  the run ends with that \<^verbatim>\<open>SyntaxError\<close>, which carries neither the status nor an
  \<^verbatim>\<open>error\<close> member.
\<close>

theorem failed_authentication_counterexample:
  "pullLogs (demo_env gateway_error page_more page_empty) (TrelicaLogPuller demo_config) demo_world
     = Some (Inl SyntaxError, TrelicaLogPuller demo_config,
         demo_world\<lparr> trace := [Fetch (token_request (TrelicaLogPuller demo_config))],
                      console := [LogStarting, LogError SyntaxError] \<rparr>)"
proof -
  have h: "http (demo_env gateway_error page_more page_empty) (length (trace demo_world))
        (token_request (TrelicaLogPuller demo_config)) = Some gateway_error"
    "\<not> ok gateway_error"
    by (simp_all add: demo_defs gateway_error_def)
  have "auth_error gateway_error = SyntaxError"
    by (simp add: auth_error_def gateway_error_def)
  with pullLogs_rejected [OF h] show ?thesis
    by (simp add: emit_def console_log_def demo_world_def)
qed

text \<open>
  Claim C8. In a state where no bearer token has been obtained (the field
  \<^verbatim>\<open>accessToken\<close> is still \<^verbatim>\<open>null\<close>, or holds anything falsy), \<^verbatim>\<open>fetchLogs\<close> throws the
  "Not authenticated" error and leaves the world as it was: no request is issued.
\<close>

theorem fetchLogs_without_token:
  "\<not> truthy (accessToken p) \<Longrightarrow> fetchLogs e p w = (Inl NotAuthenticated, w)"
  by (simp add: fetchLogs_def)

theorem fetchLogs_without_token_witness:
  "\<not> truthy (accessToken (TrelicaLogPuller demo_config))
   \<and> fetchLogs (demo_env token_response page_more page_more) (TrelicaLogPuller demo_config) demo_world
       = (Inl NotAuthenticated, demo_world)"
proof -
  have h: "\<not> truthy (accessToken (TrelicaLogPuller demo_config))"
    by (simp add: demo_defs)
  from h fetchLogs_without_token [OF h] show ?thesis by blast
qed

text \<open>
  Claim C9 (as amended). When the \<^verbatim>\<open>results\<close> member of the page is absent or \<^verbatim>\<open>null\<close>,
  the loop takes the page as one with zero records and returns after this one request.
  When the write of the bookmark file is stored, it returns normally, the total as it was,
  and the bookmark file holds the current locator with the caught-up note; when that
  write is rejected, the loop ends with the error of the write and no cursor has been
  persisted.
\<close>

theorem missing_results_counts_as_caught_up:
  assumes "truthy (accessToken p)" "http e (length (trace w)) (logs_request p) = Some r"
    "ok r" "body r = Some v" "get_prop v ''results'' = Inr res" "res = None \<or> res = Some JNull"
    "cur = caught_up_cursor (bookmark p) (iso_string (clock e (length (trace w) + 1)))"
  shows "\<exists>res' w'. sync_loop e t p w = Some (res', p, w')
      \<and> filter is_fetch (trace w') = filter is_fetch (trace w) @ [Fetch (logs_request p)]
      \<and> (disk e (length (trace w) + 1) (bookmarkFile p) = Stored \<longrightarrow>
            res' = Inr t
            \<and> trace w' = trace w @ [Fetch (logs_request p), FileWrite (bookmarkFile p) cur,
                  Delay 100]
            \<and> files w' = (files w)(bookmarkFile p := Json cur))
      \<and> (disk e (length (trace w) + 1) (bookmarkFile p) \<noteq> Stored \<longrightarrow>
            res' = Inl WriteRejected
            \<and> trace w' = trace w @ [Fetch (logs_request p),
                  FileWriteFailed (bookmarkFile p)
                    (disk e (length (trace w) + 1) (bookmarkFile p) = Torn)]
            \<and> files w' = (if disk e (length (trace w) + 1) (bookmarkFile p) = Torn
                           then (files w)(bookmarkFile p := NotJson) else files w))"
proof -
  have "no_records (js_length (js_or res (JArr [])))"
    using assms(6) by (auto simp: no_records_def js_or_def)
  from caught_up_turn [OF assms(1-5) this, of t] obtain res' w' where
    "sync_loop e t p w = Some (res', p, w')"
    "filter is_fetch (trace w') = filter is_fetch (trace w) @ [Fetch (logs_request p)]"
    "disk e (length (trace w) + 1) (bookmarkFile p) = Stored \<longrightarrow>
            res' = Inr t
            \<and> trace w' = trace w @ [Fetch (logs_request p), FileWrite (bookmarkFile p) cur,
                  Delay 100]
            \<and> files w' = (files w)(bookmarkFile p := Json cur)"
    "disk e (length (trace w) + 1) (bookmarkFile p) \<noteq> Stored \<longrightarrow>
            res' = Inl WriteRejected
            \<and> trace w' = trace w @ [Fetch (logs_request p),
                  FileWriteFailed (bookmarkFile p)
                    (disk e (length (trace w) + 1) (bookmarkFile p) = Torn)]
            \<and> files w' = (if disk e (length (trace w) + 1) (bookmarkFile p) = Torn
                           then (files w)(bookmarkFile p := NotJson) else files w)"
    unfolding assms(7) by blast
  then show ?thesis by blast
qed

theorem missing_results_counts_as_caught_up_witness:
  "truthy (accessToken demo_syncing) \<and> ok page_bare
   \<and> get_prop (JObj []) ''results'' = Inr None
   \<and> disk (demo_env token_response page_bare page_bare) 1 ''trelica_bookmark.json'' = Stored
   \<and> (\<exists>w'. sync_loop (demo_env token_response page_bare page_bare) 0 demo_syncing demo_world
                  = Some (Inr 0, demo_syncing, w')
          \<and> trace w' = [Fetch (logs_request demo_syncing),
                FileWrite ''trelica_bookmark.json'' (caught_up_cursor (Some (JStr ''L1'')) demo_stamp),
                Delay 100]
          \<and> files w' ''trelica_bookmark.json''
              = Json (caught_up_cursor (Some (JStr ''L1'')) demo_stamp))"
proof -
  let ?e = "demo_env token_response page_bare page_bare"
  let ?cur = "caught_up_cursor (Some (JStr ''L1'')) demo_stamp"
  note h = demo_turn_more(1) demo_turn_bare
  have cur: "?cur = caught_up_cursor (bookmark demo_syncing)
      (iso_string (clock ?e (length (trace demo_world) + 1)))"
    by (simp add: demo_stamp_def)
  have d: "disk ?e (length (trace demo_world) + 1) (bookmarkFile demo_syncing) = Stored"
    by simp
  have n: "(None :: json option) = None \<or> None = Some JNull"
    by simp
  from missing_results_counts_as_caught_up [OF h n cur, where t = 0] d obtain res w' where
    r: "sync_loop ?e 0 demo_syncing demo_world = Some (res, demo_syncing, w')"
      "res = Inr 0"
      "trace w' = trace demo_world @ [Fetch (logs_request demo_syncing),
          FileWrite (bookmarkFile demo_syncing) ?cur, Delay 100]"
      "files w' = (files demo_world)(bookmarkFile demo_syncing := Json ?cur)"
    by blast
  from r(4) have "files w' ''trelica_bookmark.json'' = Json ?cur"
    by simp
  with r(1-3) h(1,3,5) show ?thesis
    by simp
qed

text \<open>
  The claim as it stands fails when the bookmark file cannot be written: the page has no
  \<^verbatim>\<open>results\<close> member, the loop takes the caught-up branch, the write at line 177 is
  rejected, and the loop ends with that error; no cursor is persisted.
\<close>

theorem missing_results_counterexample:
  "truthy (accessToken demo_syncing) \<and> ok page_bare
   \<and> http (refusing ''trelica_bookmark.json'' (demo_env token_response page_bare page_bare)) 0
        (logs_request demo_syncing) = Some page_bare
   \<and> body page_bare = Some (JObj [])
   \<and> get_prop (JObj []) ''results'' = Inr None
   \<and> sync_loop (refusing ''trelica_bookmark.json'' (demo_env token_response page_bare page_bare))
        0 demo_syncing demo_world
      = Some (Inl WriteRejected, demo_syncing,
          demo_world\<lparr>
            trace := [Fetch (logs_request demo_syncing),
                      FileWriteFailed ''trelica_bookmark.json'' False],
            console := [LogFetching, LogFetched (Some (JNum 0)), LogCaughtUp] \<rparr>)
   \<and> files demo_world ''trelica_bookmark.json'' = Absent"
proof -
  let ?e = "refusing ''trelica_bookmark.json'' (demo_env token_response page_bare page_bare)"
  have h: "truthy (accessToken demo_syncing)"
    "http ?e (length (trace demo_world)) (logs_request demo_syncing) = Some page_bare"
    "ok page_bare"
    "body page_bare = Some (JObj [])"
    "get_prop (JObj []) ''results'' = Inr None"
    by (simp_all add: demo_defs)
  have nr: "no_records (js_length (js_or None (JArr [])))"
    by (simp add: no_records_def js_or_def)
  have "loop_body ?e 0 demo_syncing demo_world
      = (Inl WriteRejected, demo_syncing,
          demo_world\<lparr>
            trace := [Fetch (logs_request demo_syncing),
                      FileWriteFailed ''trelica_bookmark.json'' False],
            console := [LogFetching, LogFetched (Some (JNum 0)), LogCaughtUp] \<rparr>)"
    by (subst loop_body_empty [OF h nr])
      (simp add: rejected_def emit_def console_log_def js_or_def demo_world_def)
  from sync_loop_error [OF this] h show ?thesis
    by (simp add: demo_world_def)
qed

text \<open>
  Claim C10 (as amended). When the output file holds text that is not JSON and the list
  of records is not empty, \<^verbatim>\<open>appendLogsToFile\<close> reads the file, takes the existing
  records to be none, and writes the new records alone. When that write is stored, the
  method returns normally and the file holds only the new records; when it is rejected
  (line 128 is outside the \<^verbatim>\<open>try\<close> block), the method throws that error and the file
  is not replaced.
\<close>

theorem appendLogsToFile_replaces_unparseable_file:
  assumes "files w (outputFile p) = NotJson" "xs \<noteq> []"
  shows "\<exists>res w'. appendLogsToFile e p (Some (JArr xs)) w = (res, w')
      \<and> (disk e (length (trace w) + 1) (outputFile p) = Stored \<longrightarrow>
            res = Inr ()
            \<and> files w' = (files w)(outputFile p := Json (JArr xs))
            \<and> trace w' = trace w @ [FileRead (outputFile p), FileWrite (outputFile p) (JArr xs)])
      \<and> (disk e (length (trace w) + 1) (outputFile p) \<noteq> Stored \<longrightarrow>
            res = Inl WriteRejected
            \<and> files w' = files w
            \<and> trace w' = trace w @ [FileRead (outputFile p),
                  FileWriteFailed (outputFile p)
                    (disk e (length (trace w) + 1) (outputFile p) = Torn)])"
proof -
  have "js_length (JArr xs) = Some (JNum (int (length xs)))" "int (length xs) > 0"
    using assms(2) by simp_all
  from appendLogsToFile_records [OF this, of e p w] assms(1) show ?thesis
    by (cases "disk e (length (trace w) + 1) (outputFile p)")
      (auto simp: existing_logs_def)
qed

theorem appendLogsToFile_replaces_unparseable_file_witness:
  "files garbled_world (outputFile demo_syncing) = NotJson \<and> [JStr ''r1''] \<noteq> []
   \<and> disk (demo_env token_response page_last page_last) 1 ''trelica_logs.json'' = Stored
   \<and> (\<exists>w'. appendLogsToFile (demo_env token_response page_last page_last) demo_syncing
              (Some (JArr [JStr ''r1''])) garbled_world = (Inr (), w')
          \<and> files w' ''trelica_logs.json'' = Json (JArr [JStr ''r1''])
          \<and> trace w' = [FileRead ''trelica_logs.json'',
                         FileWrite ''trelica_logs.json'' (JArr [JStr ''r1''])])"
proof -
  let ?e = "demo_env token_response page_last page_last"
  have h: "files garbled_world (outputFile demo_syncing) = NotJson" "[JStr ''r1''] \<noteq> []"
    by (simp_all add: garbled_world_def)
  have d: "disk ?e (length (trace garbled_world) + 1) (outputFile demo_syncing) = Stored"
    by simp
  have t: "trace garbled_world = []"
    by (simp add: garbled_world_def)
  from appendLogsToFile_replaces_unparseable_file [OF h, of ?e] d obtain res w' where
    r: "appendLogsToFile ?e demo_syncing (Some (JArr [JStr ''r1''])) garbled_world = (res, w')"
      "res = Inr ()"
      "files w' = (files garbled_world)(outputFile demo_syncing := Json (JArr [JStr ''r1'']))"
      "trace w' = trace garbled_world @ [FileRead (outputFile demo_syncing),
          FileWrite (outputFile demo_syncing) (JArr [JStr ''r1''])]"
    by blast
  from r(3) have "files w' ''trelica_logs.json'' = Json (JArr [JStr ''r1''])"
    by simp
  with r(1,2,4) h t show ?thesis
    by simp
qed

text \<open>
  The claim as it stands fails where it says "instead of failing": when the output file
  holds text that is not JSON and cannot be written (it is read-only, or the disk is
  full), the method throws the error of the write and the unparseable content stays.
\<close>

theorem appendLogsToFile_unparseable_counterexample:
  "files garbled_world ''trelica_logs.json'' = NotJson
   \<and> outputFile demo_syncing = ''trelica_logs.json''
   \<and> appendLogsToFile (refusing ''trelica_logs.json'' (demo_env token_response page_last page_last))
        demo_syncing (Some (JArr [JStr ''r1''])) garbled_world
      = (Inl WriteRejected,
         garbled_world\<lparr> trace := [FileRead ''trelica_logs.json'',
                                    FileWriteFailed ''trelica_logs.json'' False] \<rparr>)"
proof -
  let ?e = "refusing ''trelica_logs.json'' (demo_env token_response page_last page_last)"
  have l: "js_length (JArr [JStr ''r1'']) = Some (JNum (int (length [JStr ''r1''])))"
    "int (length [JStr ''r1'']) > 0"
    by simp_all
  have f: "files garbled_world ''trelica_logs.json'' = NotJson"
    by (simp add: garbled_world_def)
  from appendLogsToFile_records [OF l, of ?e demo_syncing garbled_world] f show ?thesis
    by (simp add: existing_logs_def rejected_def emit_def garbled_world_def demo_world_def)
qed

end
